theory Spec2Isabelle
  imports Complex_Main "HOL-Library.AList"
begin

section \<open>PropertyDataService: fetching property records\<close>

text \<open>
  The data service wraps two HTTP endpoints.  A call of \<^verbatim>\<open>fetch\<close> either rejects
  (no connection) or yields a response with a status code whose body is parsed by
  \<^verbatim>\<open>response.json()\<close>.  The outcome of the network call is an input of the model; the
  functions below are the bodies of the two \<^verbatim>\<open>async\<close> methods, with a rejected promise
  as \<open>Inl\<close> and a fulfilled one as \<open>Inr\<close>.
\<close>

datatype transport_error =
    PandIdRequired
  | NetworkFailure
  | HttpError nat
  | InvalidJson
  | TypeError

datatype 'a json_body = BadJson | JsonNull | JsonArray "'a list"

datatype 'a fetch_outcome = Rejected | Response nat "'a json_body"

text \<open>\<^verbatim>\<open>response.ok\<close>: the status is in the range 200--299.\<close>

definition response_ok :: "nat \<Rightarrow> bool" where
  "response_ok status = (200 \<le> status \<and> status \<le> 299)"

text \<open>The part shared by both methods: await the fetch, check \<^verbatim>\<open>response.ok\<close>, parse the
  body and read \<^verbatim>\<open>data.length\<close> for the log line (a \<^verbatim>\<open>TypeError\<close> on \<^verbatim>\<open>null\<close>).\<close>

fun await_json :: "'a fetch_outcome \<Rightarrow> transport_error + 'a list" where
  "await_json Rejected = Inl NetworkFailure"
| "await_json (Response status body) =
     (if \<not> response_ok status then Inl (HttpError status)
      else case body of
             BadJson \<Rightarrow> Inl InvalidJson
           | JsonNull \<Rightarrow> Inl TypeError
           | JsonArray d \<Rightarrow> Inr d)"

record 'r data_service =
  cache :: "string \<rightharpoonup> 'r list"
  databaseBuildingIds :: "string list option"

definition new_data_service :: "'r data_service" where
  "new_data_service = \<lparr> cache = Map.empty, databaseBuildingIds = None \<rparr>"

text \<open>\<^verbatim>\<open>getPropertiesByPandId\<close>: the empty id is refused, a cached answer is returned
  without a fetch, a fetched answer is cached (also the empty array), and every error of
  the \<^verbatim>\<open>try\<close> block is logged and thrown again.  The method runs in two parts: up to
  the \<^verbatim>\<open>await\<close> of the fetch when it is called, and from there when the response
  arrives; other handlers may run in between.\<close>

datatype 'r fetch_start = Settled "transport_error + 'r list" | Awaiting

definition getPropertiesByPandId_start :: "'r data_service \<Rightarrow> string \<Rightarrow> 'r fetch_start" where
  "getPropertiesByPandId_start s pandId =
     (if pandId = [] then Settled (Inl PandIdRequired)
      else case cache s pandId of
             Some d \<Rightarrow> Settled (Inr d)
           | None \<Rightarrow> Awaiting)"

definition getPropertiesByPandId_finish ::
  "'r data_service \<Rightarrow> string \<Rightarrow> 'r fetch_outcome \<Rightarrow> (transport_error + 'r list) \<times> 'r data_service" where
  "getPropertiesByPandId_finish s pandId outcome =
     (case await_json outcome of
        Inl e \<Rightarrow> (Inl e, s)
      | Inr d \<Rightarrow> (Inr d, s\<lparr> cache := (cache s)(pandId \<mapsto> d) \<rparr>))"

definition getPropertiesByPandId ::
  "'r data_service \<Rightarrow> string \<Rightarrow> 'r fetch_outcome \<Rightarrow> (transport_error + 'r list) \<times> 'r data_service" where
  "getPropertiesByPandId s pandId outcome =
     (case getPropertiesByPandId_start s pandId of
        Settled r \<Rightarrow> (r, s)
      | Awaiting \<Rightarrow> getPropertiesByPandId_finish s pandId outcome)"

text \<open>\<^verbatim>\<open>getAllPandIds\<close>: the body of the \<^verbatim>\<open>try\<close> block first, then the method with its
  \<^verbatim>\<open>catch\<close>, which returns the empty array.  An array is truthy in JavaScript also when
  it is empty, so any cached list is returned.\<close>

definition getAllPandIds_try ::
  "'r data_service \<Rightarrow> string fetch_outcome \<Rightarrow> transport_error + (string list \<times> 'r data_service)" where
  "getAllPandIds_try s outcome =
     (case databaseBuildingIds s of
        Some ids \<Rightarrow> Inr (ids, s)
      | None \<Rightarrow>
          (case await_json outcome of
             Inl e \<Rightarrow> Inl e
           | Inr d \<Rightarrow> Inr (d, s\<lparr> databaseBuildingIds := Some d \<rparr>)))"

definition getAllPandIds ::
  "'r data_service \<Rightarrow> string fetch_outcome \<Rightarrow> (transport_error + string list) \<times> 'r data_service" where
  "getAllPandIds s outcome =
     (case getAllPandIds_try s outcome of
        Inl e \<Rightarrow> (Inr [], s)
      | Inr (ids, s') \<Rightarrow> (Inr ids, s'))"

text \<open>A transport failure: the fetch rejects, or the response is not \<^verbatim>\<open>ok\<close>.\<close>

fun transport_failure :: "'a fetch_outcome \<Rightarrow> bool" where
  "transport_failure Rejected = True"
| "transport_failure (Response status body) = (\<not> response_ok status)"


section \<open>Property records and feature metadata\<close>

text \<open>
  A property record is one row of the table \<^verbatim>\<open>woz_objects\<close>, delivered as JSON.  The
  floor columns are \<^verbatim>\<open>INTEGER\<close> columns: in JavaScript such a field is a number,
  \<^verbatim>\<open>null\<close> (SQL NULL) or \<^verbatim>\<open>undefined\<close> (the key is absent).  The address columns are
  only printed and are left out.
\<close>

datatype jsnum = Undefined | Null | Num int

record property_record =
  pandid :: string
  bwlg_vb0 :: jsnum
  laagste_bwlg_pnd :: jsnum
  hoogste_bwlg_pnd :: jsnum
  aant_bwlg_pnd :: jsnum

text \<open>\<^verbatim>\<open>v && v > 0\<close> on such a field.\<close>

fun truthy_positive :: "jsnum \<Rightarrow> bool" where
  "truthy_positive (Num n) = (n \<noteq> 0 \<and> n > 0)"
| "truthy_positive Null = False"
| "truthy_positive Undefined = False"

text \<open>The numeric value in an arithmetic expression: \<^verbatim>\<open>null\<close> counts as 0.  The value of
  \<^verbatim>\<open>undefined\<close> is NaN in JavaScript; every use below is guarded by
  \<^verbatim>\<open>!== undefined\<close>, so that case is never evaluated.\<close>

fun to_number :: "jsnum \<Rightarrow> int" where
  "to_number (Num n) = n"
| "to_number Null = 0"
| "to_number Undefined = 0"

text \<open>Values of the tile metadata: strings, integral numbers, \<^verbatim>\<open>null\<close>,
  \<^verbatim>\<open>undefined\<close>.\<close>

datatype propval = PUndefined | PNull | PInt int | PStr string

definition is_digit :: "char \<Rightarrow> bool" where
  "is_digit c = (c \<in> set ''0123456789'')"

definition digit_char :: "nat \<Rightarrow> char" where
  "digit_char d = ''0123456789'' ! d"

function show_nat :: "nat \<Rightarrow> string" where
  "show_nat n = (if n < 10 then [digit_char n] else show_nat (n div 10) @ [digit_char (n mod 10)])"
  by pat_completeness auto
termination
  by (relation "measure id") auto

declare show_nat.simps [simp del]

definition show_int :: "int \<Rightarrow> string" where
  "show_int i = (if i < 0 then CHR ''-'' # show_nat (nat (- i)) else show_nat (nat i))"

text \<open>\<^verbatim>\<open>String(v)\<close>, truthiness and \<^verbatim>\<open>typeof v === 'string'\<close>.\<close>

fun js_String :: "propval \<Rightarrow> string" where
  "js_String (PStr s) = s"
| "js_String (PInt n) = show_int n"
| "js_String PNull = ''null''"
| "js_String PUndefined = ''undefined''"

fun truthy :: "propval \<Rightarrow> bool" where
  "truthy (PStr s) = (s \<noteq> [])"
| "truthy (PInt n) = (n \<noteq> 0)"
| "truthy PNull = False"
| "truthy PUndefined = False"

text \<open>The two patterns: \<^verbatim>\<open>/^[0-9]{16}$/\<close> holds of a string of exactly sixteen digits;
  \<^verbatim>\<open>/[0-9]{16}/\<close> returns the leftmost run of sixteen digits.\<close>

definition exact16 :: "string \<Rightarrow> bool" where
  "exact16 s = (length s = 16 \<and> list_all is_digit s)"

fun match16 :: "string \<Rightarrow> string option" where
  "match16 [] = None"
| "match16 (c # cs) =
     (if 16 \<le> length (c # cs) \<and> list_all is_digit (take 16 (c # cs))
      then Some (take 16 (c # cs)) else match16 cs)"

text \<open>\<^verbatim>\<open>/[0-9]{10,}/\<close>: the leftmost run of at least ten digits, taken to its end.\<close>

fun match10 :: "string \<Rightarrow> string option" where
  "match10 [] = None"
| "match10 (c # cs) =
     (if 10 \<le> length (takeWhile is_digit (c # cs))
      then Some (takeWhile is_digit (c # cs)) else match10 cs)"

text \<open>
  A position is kept in cartographic form (longitude, latitude, height); the conversions
  of the engine between Cartesian and cartographic coordinates are taken as exact, and
  numbers are real numbers.  A transform matrix appears only through its action on
  points.
\<close>

record position =
  longitude :: real
  latitude :: real
  height :: real

record sphere =
  s_center :: position
  s_radius :: real

record tile =
  t_transform :: "(position \<Rightarrow> position) option"
  t_boundingSphere :: "sphere option"

record content =
  c_tile :: "tile option"
  c_modelTranslation :: "position option"
  c_boundingSphere :: "sphere option"
  c_url :: "string option"
  c_batchTable :: "(string \<times> propval) list option"

text \<open>
  A tile feature: its property table in the order of \<^verbatim>\<open>getPropertyNames()\<close>, the numeric
  value of its \<^verbatim>\<open>height\<close> property when it has one, its content, and the bounding sphere
  and id of its primitive.
\<close>

record feature =
  f_props :: "(string \<times> propval) list"
  f_height :: "real option"
  f_content :: "content option"
  f_primitiveSphere :: "sphere option"
  f_primitiveId :: "string option"

definition hasProperty :: "feature \<Rightarrow> string \<Rightarrow> bool" where
  "hasProperty f name = (name \<in> set (map fst (f_props f)))"

definition getProperty :: "feature \<Rightarrow> string \<Rightarrow> propval" where
  "getProperty f name = (case map_of (f_props f) name of Some v \<Rightarrow> v | None \<Rightarrow> PUndefined)"

definition getPropertyNames :: "feature \<Rightarrow> string list" where
  "getPropertyNames f = map fst (f_props f)"


section \<open>FloorGenerator\<close>

subsection \<open>Floor count\<close>

text \<open>\<^verbatim>\<open>getTotalFloors\<close>.  The set of floor values is built by inserting one record after
  the other.\<close>

definition uniqueFloors :: "property_record list \<Rightarrow> int list" where
  "uniqueFloors properties =
     fold (\<lambda>prop acc. if bwlg_vb0 prop \<noteq> Undefined \<and> bwlg_vb0 prop \<noteq> Null
                       then List.insert (to_number (bwlg_vb0 prop)) acc else acc)
          properties []"

definition getTotalFloors :: "property_record list \<Rightarrow> int" where
  "getTotalFloors properties =
     (case properties of
        [] \<Rightarrow> 15
      | firstProp # rest \<Rightarrow>
          if truthy_positive (aant_bwlg_pnd firstProp) then to_number (aant_bwlg_pnd firstProp)
          else if hoogste_bwlg_pnd firstProp \<noteq> Undefined \<and> laagste_bwlg_pnd firstProp \<noteq> Undefined
          then to_number (hoogste_bwlg_pnd firstProp) - to_number (laagste_bwlg_pnd firstProp) + 1
          else if length (uniqueFloors properties) > 0 then int (length (uniqueFloors properties))
          else 15)"

text \<open>\<^verbatim>\<open>getDetailedFloorInfo\<close>, the function that \<^verbatim>\<open>generateFloorModels\<close> calls.  The
  fields \<^verbatim>\<open>buildingYear\<close> and \<^verbatim>\<open>buildingType\<close> of its result are not read anywhere and
  are left out.\<close>

record floor_info =
  totalFloors :: int
  floorUnits :: "nat list"

definition getDetailedFloorInfo :: "property_record list \<Rightarrow> floor_info option" where
  "getDetailedFloorInfo properties =
     (case properties of
        [] \<Rightarrow> None
      | firstProp # rest \<Rightarrow>
          let floorCount =
            (if truthy_positive (aant_bwlg_pnd firstProp) then to_number (aant_bwlg_pnd firstProp)
             else if hoogste_bwlg_pnd firstProp \<noteq> Undefined \<and> laagste_bwlg_pnd firstProp \<noteq> Undefined
             then to_number (hoogste_bwlg_pnd firstProp) - to_number (laagste_bwlg_pnd firstProp) + 1
             else 9)
          in Some \<lparr> totalFloors = floorCount,
                    floorUnits = map (\<lambda>i. length (filter (\<lambda>p. bwlg_vb0 p = Num (int i)) properties))
                                     [0 ..< nat floorCount] \<rparr>)"

definition getPropertiesOnFloor :: "property_record list \<Rightarrow> int \<Rightarrow> property_record list" where
  "getPropertiesOnFloor properties floorNum = filter (\<lambda>p. bwlg_vb0 p = Num floorNum) properties"

subsection \<open>Floor colour\<close>

text \<open>A colour is kept as the call of the engine that makes it.\<close>

datatype named_color = RED | BLUE | YELLOW | WHITE | GRAY | BLACK

datatype color = WithAlpha named_color real | FromHsl real real real real

definition getFloorColor :: "int \<Rightarrow> int \<Rightarrow> color" where
  "getFloorColor floorNum floorCount =
     (if floorNum = 0 then WithAlpha RED 0.8
      else if floorNum = floorCount - 1 then WithAlpha BLUE 0.8
      else let normalizedHeight = real_of_int floorNum / real_of_int (max 1 (floorCount - 1))
           in FromHsl (0.6 - (normalizedHeight * 0.6)) 0.8 0.6 0.8)"

subsection \<open>Building id and geometry of a feature\<close>

text \<open>\<^verbatim>\<open>extractBuildingId\<close>: the first truthy one of three properties, else the id of the
  primitive, else a run of ten or more digits in the content url.\<close>

definition first_truthy :: "propval list \<Rightarrow> propval" where
  "first_truthy vs = (case filter truthy vs of v # _ \<Rightarrow> v | [] \<Rightarrow> (if vs = [] then PUndefined else last vs))"

definition extractBuildingId :: "feature option \<Rightarrow> string option" where
  "extractBuildingId featureOpt =
     (case featureOpt of
        None \<Rightarrow> None
      | Some feature \<Rightarrow>
          let id = first_truthy [getProperty feature ''id'', getProperty feature ''identificatie'',
                                 getProperty feature ''identificatie_bag'']
          in if truthy id then Some (js_String id)
             else case f_primitiveId feature of
                    Some pid \<Rightarrow> (if pid \<noteq> [] then Some pid else
                        (case f_content feature of
                           None \<Rightarrow> None
                         | Some c \<Rightarrow> (case c_url c of None \<Rightarrow> None
                                      | Some url \<Rightarrow> if url = [] then None else match10 url)))
                  | None \<Rightarrow>
                        (case f_content feature of
                           None \<Rightarrow> None
                         | Some c \<Rightarrow> (case c_url c of None \<Rightarrow> None
                                      | Some url \<Rightarrow> if url = [] then None else match10 url)))"

record position_info =
  pi_position :: position
  pi_isManual :: bool

record building_geometry =
  g_position :: position
  g_width :: real
  g_length :: real
  g_height :: real
  g_isLShaped :: bool

text \<open>The geometry built from a stored position alone, with its constant size.\<close>

definition default_geometry :: "position \<Rightarrow> building_geometry" where
  "default_geometry p =
     \<lparr> g_position = p, g_width = 40, g_length = 40, g_height = 45, g_isLShaped = False \<rparr>"

text \<open>The position of a feature with content when no position is stored: the translation
  of the model matrix, else (when there is a tile) the centre of the primitive's sphere or
  the tile's sphere moved by the world matrix, else the centre of the content's sphere.\<close>

definition feature_position :: "feature \<Rightarrow> content \<Rightarrow> position option" where
  "feature_position feature c =
     (let worldMatrix = (case c_tile c of None \<Rightarrow> None | Some t \<Rightarrow> t_transform t);
          p1 = c_modelTranslation c;
          p2 = (case p1 of
                  Some p \<Rightarrow> Some p
                | None \<Rightarrow>
                    (case c_tile c of
                       None \<Rightarrow> None
                     | Some t \<Rightarrow>
                         (case f_primitiveSphere feature of
                            Some bs \<Rightarrow> Some (s_center bs)
                          | None \<Rightarrow>
                              (case t_boundingSphere t of
                                 None \<Rightarrow> None
                               | Some bs \<Rightarrow>
                                   (case worldMatrix of
                                      Some m \<Rightarrow> Some (m (s_center bs))
                                    | None \<Rightarrow> Some (s_center bs))))));
          p3 = (case p2 of
                  Some p \<Rightarrow> Some p
                | None \<Rightarrow> map_option s_center (c_boundingSphere c));
          p4 = (case p3 of
                  Some p \<Rightarrow> Some p
                | None \<Rightarrow>
                    (case c_tile c of None \<Rightarrow> None
                     | Some t \<Rightarrow> map_option s_center (t_boundingSphere t)))
      in p4)"

text \<open>The sphere that gives the size: of the primitive, the tile or the content, else a
  sphere of radius 40 around the position.\<close>

definition feature_sphere :: "feature \<Rightarrow> content \<Rightarrow> position option \<Rightarrow> sphere option" where
  "feature_sphere feature c pos =
     (case f_primitiveSphere feature of
        Some bs \<Rightarrow> Some bs
      | None \<Rightarrow>
          (case (case c_tile c of None \<Rightarrow> None | Some t \<Rightarrow> t_boundingSphere t) of
             Some bs \<Rightarrow> Some bs
           | None \<Rightarrow>
               (case c_boundingSphere c of
                  Some bs \<Rightarrow> Some bs
                | None \<Rightarrow> map_option (\<lambda>p. \<lparr> s_center = p, s_radius = 40 \<rparr>) pos)))"

text \<open>\<^verbatim>\<open>extractDetailedGeometry\<close>.  A stored position is the primary source.  The block
  of the source that transforms the sphere centre once more assigns a variable that is
  not read afterwards.  The function reads the stored position and writes nothing.\<close>

definition extractDetailedGeometry ::
  "feature option \<Rightarrow> position_info option \<Rightarrow> building_geometry option" where
  "extractDetailedGeometry featureOpt storedPosition =
     (let stored = map_option pi_position storedPosition in
      case featureOpt of
        None \<Rightarrow> map_option default_geometry stored
      | Some feature \<Rightarrow>
          (case f_content feature of
             None \<Rightarrow> map_option default_geometry stored
           | Some c \<Rightarrow>
               let pos = (case stored of Some p \<Rightarrow> Some p | None \<Rightarrow> feature_position feature c)
               in case feature_sphere feature c pos of
                    None \<Rightarrow> None
                  | Some bs \<Rightarrow>
                      let finalPosition = (case pos of Some p \<Rightarrow> p | None \<Rightarrow> s_center bs);
                          r = s_radius bs;
                          h = (case f_height feature of
                                 Some v \<Rightarrow> if v \<noteq> 0 then v else r * 2
                               | None \<Rightarrow> r * 2)
                      in Some \<lparr> g_position = finalPosition,
                                g_width = r * 1.6 * 0.8,
                                g_length = r * 1.6 * 0.8,
                                g_height = h,
                                g_isLShaped =
                                  (extractBuildingId (Some feature) = Some ''0599100000035588'') \<rparr>))"

subsection \<open>Floor entities\<close>

text \<open>
  The ids of the entities that this code puts into the viewer are made from fixed
  prefixes: \<^verbatim>\<open>floor_<building>_<n>\<close>, \<^verbatim>\<open>building_outline_<building>\<close>,
  \<^verbatim>\<open>debug_<label>\<close> and \<^verbatim>\<open>debug_building_<building>_center\<close>.  The viewer is kept as
  the set of the ids it holds; adding an id that it holds already raises an error in the
  engine.  The two boxes of an L-shaped floor are added without an id and are kept with
  their parent as its parts.
\<close>

datatype entity_id =
    FloorEntity string int
  | BuildingOutline string
  | DebugMarker string
  | DebugCenter string

record box =
  b_width :: real
  b_length :: real
  b_height :: real

record entity =
  e_id :: entity_id
  e_position :: position
  e_box :: "box option"
  e_parts :: "box list"
  e_color :: color
  e_unitsCount :: nat
  e_show :: bool
  e_children :: "bool list"

text \<open>\<^verbatim>\<open>createFloorEntityFromGeometry\<close>: a box a little smaller than the building and than
  the floor.  A new entity is shown, and has no \<^verbatim>\<open>children\<close> property.\<close>

definition createFloorEntityFromGeometry ::
  "string \<Rightarrow> int \<Rightarrow> position \<Rightarrow> building_geometry \<Rightarrow> real \<Rightarrow> color \<Rightarrow> property_record list \<Rightarrow> entity" where
  "createFloorEntityFromGeometry buildingId floorNum pos geometry floorHeight col floorProperties =
     \<lparr> e_id = FloorEntity buildingId floorNum,
       e_position = pos,
       e_box = Some \<lparr> b_width = g_width geometry * 0.95,
                       b_length = g_length geometry * 0.95,
                       b_height = floorHeight * 0.8 \<rparr>,
       e_parts = [],
       e_color = col,
       e_unitsCount = length floorProperties,
       e_show = True,
       e_children = [] \<rparr>"

text \<open>\<^verbatim>\<open>createComplexShapeFloorEntity\<close>: for the one L-shaped building a parent without a
  box and two boxes; for every other building the regular box.\<close>

definition createComplexShapeFloorEntity ::
  "string \<Rightarrow> int \<Rightarrow> position \<Rightarrow> building_geometry \<Rightarrow> real \<Rightarrow> color \<Rightarrow> property_record list \<Rightarrow> entity" where
  "createComplexShapeFloorEntity buildingId floorNum pos geometry floorHeight col floorProperties =
     (if buildingId = ''0599100000035588'' then
        let baseSize = g_width geometry * 1.2 in
        \<lparr> e_id = FloorEntity buildingId floorNum,
          e_position = pos,
          e_box = None,
          e_parts = [\<lparr> b_width = baseSize * 0.6, b_length = baseSize, b_height = floorHeight * 0.8 \<rparr>,
                     \<lparr> b_width = baseSize, b_length = baseSize * 0.4, b_height = floorHeight * 0.8 \<rparr>],
          e_color = col,
          e_unitsCount = length floorProperties,
          e_show = True,
          e_children = [] \<rparr>
      else createFloorEntityFromGeometry buildingId floorNum pos geometry floorHeight col floorProperties)"

text \<open>The body of the loop of \<^verbatim>\<open>generateFloorModels\<close> for one floor number.\<close>

definition floor_entity ::
  "string \<Rightarrow> building_geometry \<Rightarrow> int \<Rightarrow> property_record list \<Rightarrow> int \<Rightarrow> entity" where
  "floor_entity buildingId geometry floorCount properties floorNum =
     (let pos = g_position geometry;
          buildingHeight = g_height geometry;
          buildingBottom = height pos - (buildingHeight / 2);
          floorHeight = buildingHeight / real_of_int floorCount;
          isLShaped = (g_isLShaped geometry \<or> buildingId = ''0599100000035588'');
          floorZ = buildingBottom + (real_of_int floorNum * floorHeight) + (floorHeight / 2);
          floorPosition = \<lparr> longitude = longitude pos, latitude = latitude pos, height = floorZ \<rparr>;
          floorProperties = getPropertiesOnFloor properties floorNum;
          col = getFloorColor floorNum floorCount
      in if isLShaped
         then createComplexShapeFloorEntity buildingId floorNum floorPosition geometry floorHeight col floorProperties
         else createFloorEntityFromGeometry buildingId floorNum floorPosition geometry floorHeight col floorProperties)"

subsection \<open>The generator and its operations\<close>

text \<open>
  The generator keeps the map from building id to floor entities (a JavaScript \<^verbatim>\<open>Map\<close>,
  here an association list in insertion order), the active building, the stored positions
  and the viewer.
\<close>

record floor_generator =
  floorEntities :: "(string \<times> entity list) list"
  activeBuilding :: "string option"
  buildingPositions :: "string \<rightharpoonup> position_info"
  viewer :: "entity_id set"

definition new_floor_generator :: floor_generator where
  "new_floor_generator =
     \<lparr> floorEntities = [], activeBuilding = None, buildingPositions = Map.empty, viewer = {} \<rparr>"

definition setBuildingPosition :: "floor_generator \<Rightarrow> string \<Rightarrow> position_info \<Rightarrow> floor_generator" where
  "setBuildingPosition fg buildingId positionInfo =
     fg\<lparr> buildingPositions := (buildingPositions fg)(buildingId \<mapsto> positionInfo) \<rparr>"

definition getBuildingPosition :: "floor_generator \<Rightarrow> string \<Rightarrow> position_info option" where
  "getBuildingPosition fg buildingId = buildingPositions fg buildingId"

text \<open>\<^verbatim>\<open>addDebugMarker\<close> removes a marker of the same id before it adds the new one.\<close>

definition addDebugMarker :: "floor_generator \<Rightarrow> string \<Rightarrow> floor_generator" where
  "addDebugMarker fg label = fg\<lparr> viewer := insert (DebugMarker label) (viewer fg - {DebugMarker label}) \<rparr>"

text \<open>\<^verbatim>\<open>addBuildingOutline\<close> catches the error of a second outline of the same id.\<close>

definition addBuildingOutline :: "floor_generator \<Rightarrow> string \<Rightarrow> floor_generator" where
  "addBuildingOutline fg buildingId =
     (if BuildingOutline buildingId \<in> viewer fg then fg
      else fg\<lparr> viewer := insert (BuildingOutline buildingId) (viewer fg) \<rparr>)"

definition removeFloorModels :: "floor_generator \<Rightarrow> string \<Rightarrow> bool \<times> floor_generator" where
  "removeFloorModels fg buildingId =
     (case map_of (floorEntities fg) buildingId of
        Some es \<Rightarrow>
          if length es > 0
          then (True, fg\<lparr> viewer := viewer fg - set (map e_id es),
                           floorEntities := AList.delete buildingId (floorEntities fg) \<rparr>)
          else (False, fg)
      | None \<Rightarrow> (False, fg))"

definition removeAllFloorModels :: "floor_generator \<Rightarrow> floor_generator" where
  "removeAllFloorModels fg =
     fg\<lparr> viewer := viewer fg - set (map e_id (concat (map snd (floorEntities fg)))),
         floorEntities := [] \<rparr>"

text \<open>\<^verbatim>\<open>setFloorsVisible\<close>: the \<^verbatim>\<open>show\<close> flag of every entity of the building that the
  viewer contains, and of its children.\<close>

definition set_entity_show :: "entity_id set \<Rightarrow> bool \<Rightarrow> entity \<Rightarrow> entity" where
  "set_entity_show v visible e =
     (if e_id e \<in> v
      then e\<lparr> e_show := visible, e_children := map (\<lambda>child. visible) (e_children e) \<rparr>
      else e)"

definition setFloorsVisible :: "floor_generator \<Rightarrow> string \<Rightarrow> bool \<Rightarrow> bool \<times> floor_generator" where
  "setFloorsVisible fg buildingId visible =
     (case map_of (floorEntities fg) buildingId of
        Some es \<Rightarrow>
          if length es > 0
          then (True, fg\<lparr> floorEntities :=
                            AList.update buildingId (map (set_entity_show (viewer fg) visible) es)
                                         (floorEntities fg) \<rparr>)
          else (False, fg)
      | None \<Rightarrow> (False, fg))"

text \<open>The loop that adds the entities to the viewer: an id that the viewer holds already
  stops it with an error, and what was added so far stays.\<close>

fun add_entities :: "entity list \<Rightarrow> entity_id set \<Rightarrow> bool \<times> entity_id set" where
  "add_entities [] v = (True, v)"
| "add_entities (e # es) v =
     (if e_id e \<in> v then (False, v) else add_entities es (insert (e_id e) v))"

text \<open>\<^verbatim>\<open>generateFloorModels\<close>, with the value it returns.  Any error inside is caught and
  gives \<^verbatim>\<open>false\<close>.\<close>

definition generateFloorModels ::
  "floor_generator \<Rightarrow> feature option \<Rightarrow> property_record list \<Rightarrow> bool \<times> floor_generator" where
  "generateFloorModels fg buildingFeature properties =
     (case extractBuildingId buildingFeature of
        None \<Rightarrow> (False, fg)
      | Some buildingId \<Rightarrow>
          (case extractDetailedGeometry buildingFeature (getBuildingPosition fg buildingId) of
             None \<Rightarrow> (False, fg)
           | Some geometry \<Rightarrow>
               let fg1 = addDebugMarker fg (''Building '' @ buildingId) in
               (case getDetailedFloorInfo properties of
                  None \<Rightarrow> (False, fg1)
                | Some floorInfo \<Rightarrow>
                    if totalFloors floorInfo \<le> 0 then (False, fg1)
                    else
                      let fg2 = snd (removeFloorModels fg1 buildingId);
                          es = map (floor_entity buildingId geometry (totalFloors floorInfo) properties)
                                   [0 .. totalFloors floorInfo - 1];
                          (ok, v) = add_entities es (viewer fg2)
                      in if \<not> ok then (False, fg2\<lparr> viewer := v \<rparr>)
                         else (True,
                               addBuildingOutline
                                 (fg2\<lparr> viewer := v,
                                       floorEntities := AList.update buildingId es (floorEntities fg2),
                                       activeBuilding := Some buildingId \<rparr>)
                                 buildingId))))"

section \<open>Identification of a picked feature\<close>

text \<open>
  \<^verbatim>\<open>BuildingSelector.getFeatureBuildingId\<close>.  The loop at its start only logs.  Then the
  six canonical property names are tried in order for a string of exactly sixteen digits,
  then the \<^verbatim>\<open>gml:id\<close> property for an embedded run of sixteen digits, then the batch
  table of the content.  The accessors of the engine are taken not to raise.
\<close>

definition canonical_names :: "string list" where
  "canonical_names = [''PANDID'', ''pandid'', ''id'', ''ID'', ''buildingId'', ''gml:id'']"

fun exact_string :: "propval \<Rightarrow> bool" where
  "exact_string (PStr s) = exact16 s"
| "exact_string v = False"

fun scan_names :: "feature \<Rightarrow> string list \<Rightarrow> string option" where
  "scan_names f [] = None"
| "scan_names f (propName # rest) =
     (if hasProperty f propName \<and> exact_string (getProperty f propName)
      then Some (js_String (getProperty f propName))
      else scan_names f rest)"

definition gml_id_match :: "feature \<Rightarrow> string option" where
  "gml_id_match f =
     (if hasProperty f ''gml:id'' then match16 (js_String (getProperty f ''gml:id'')) else None)"

text \<open>\<^verbatim>\<open>name.toLowerCase().includes('id')\<close> on names of ASCII letters.\<close>

definition to_lower :: "char \<Rightarrow> char" where
  "to_lower c =
     (case map_of (zip ''ABCDEFGHIJKLMNOPQRSTUVWXYZ'' ''abcdefghijklmnopqrstuvwxyz'') c of
        Some l \<Rightarrow> l
      | None \<Rightarrow> c)"

fun str_includes :: "string \<Rightarrow> string \<Rightarrow> bool" where
  "str_includes [] sub = (sub = [])"
| "str_includes (c # cs) sub = (take (length sub) (c # cs) = sub \<or> str_includes cs sub)"

definition name_has_id :: "string \<Rightarrow> bool" where
  "name_has_id name = str_includes (map to_lower name) ''id''"

text \<open>\<^verbatim>\<open>extractBuildingIdFromFeature\<close>: the names of the batch table in their order; the
  value of a name is the one that the table returns for the feature.\<close>

fun scan_batch :: "(string \<times> propval) list \<Rightarrow> string list \<Rightarrow> string option" where
  "scan_batch table [] = None"
| "scan_batch table (name # rest) =
     (if name_has_id name \<and>
         exact_string (case map_of table name of Some v \<Rightarrow> v | None \<Rightarrow> PUndefined)
      then Some (js_String (case map_of table name of Some v \<Rightarrow> v | None \<Rightarrow> PUndefined))
      else scan_batch table rest)"

definition extractBuildingIdFromFeature :: "feature \<Rightarrow> string option" where
  "extractBuildingIdFromFeature f =
     (case f_content f of
        None \<Rightarrow> None
      | Some c \<Rightarrow>
          (case c_batchTable c of
             None \<Rightarrow> None
           | Some table \<Rightarrow> scan_batch table (map fst table)))"

definition getFeatureBuildingId :: "feature \<Rightarrow> string option" where
  "getFeatureBuildingId f =
     (case scan_names f canonical_names of
        Some v \<Rightarrow> Some v
      | None \<Rightarrow>
          (case gml_id_match f of
             Some m \<Rightarrow> Some m
           | None \<Rightarrow> extractBuildingIdFromFeature f))"


section \<open>Dataset membership\<close>

text \<open>\<^verbatim>\<open>BuildingDataLoader\<close>: the set of ids and the flag that is set by a successful
  load.  A building id given to \<^verbatim>\<open>hasBuildingId\<close> may be \<^verbatim>\<open>null\<close> (here \<open>None\<close>).\<close>

record building_data_loader =
  buildingIds :: "string set"
  loaded :: bool

definition new_building_data_loader :: building_data_loader where
  "new_building_data_loader = \<lparr> buildingIds = {}, loaded = False \<rparr>"

text \<open>The end of \<^verbatim>\<open>loadBuildingIdsFromFile\<close>: a response that is \<^verbatim>\<open>ok\<close> and whose
  body carries the array \<^verbatim>\<open>buildingIds\<close> replaces the set and sets the flag; anything
  else returns \<^verbatim>\<open>false\<close> and changes nothing.  The flag is never reset.\<close>

definition loadBuildingIdsFromFile ::
  "building_data_loader \<Rightarrow> string fetch_outcome \<Rightarrow> bool \<times> building_data_loader" where
  "loadBuildingIdsFromFile l outcome =
     (case outcome of
        Response status (JsonArray ids) \<Rightarrow>
          if response_ok status then (True, l\<lparr> buildingIds := set ids, loaded := True \<rparr>)
          else (False, l)
      | _ \<Rightarrow> (False, l))"

definition is_space :: "char \<Rightarrow> bool" where
  "is_space c = (c \<in> {CHR '' '', CHR 0x09, CHR 0x0A, CHR 0x0B, CHR 0x0C, CHR 0x0D})"

definition trim :: "string \<Rightarrow> string" where
  "trim s = rev (dropWhile is_space (rev (dropWhile is_space s)))"

definition hasBuildingId :: "building_data_loader \<Rightarrow> string option \<Rightarrow> bool" where
  "hasBuildingId l buildingId =
     (if \<not> loaded l then True
      else case buildingId of
             None \<Rightarrow> False
           | Some b \<Rightarrow> if b = [] then False else trim b \<in> buildingIds l)"

text \<open>\<^verbatim>\<open>TileStyleManager\<close>: the loader it was given, and the set of buildings with
  information.\<close>

record style_manager =
  buildingDataLoader :: "building_data_loader option"
  sm_buildingsWithInfo :: "string set"

definition sm_markBuildingHasInfo :: "style_manager \<Rightarrow> string \<Rightarrow> style_manager" where
  "sm_markBuildingHasInfo sm buildingId =
     (if buildingId \<noteq> [] then sm\<lparr> sm_buildingsWithInfo := insert buildingId (sm_buildingsWithInfo sm) \<rparr>
      else sm)"

definition hasBuildingData :: "style_manager \<Rightarrow> string option \<Rightarrow> bool" where
  "hasBuildingData sm buildingId =
     (case buildingDataLoader sm of
        None \<Rightarrow> False
      | Some l \<Rightarrow>
          if \<not> loaded l then False
          else case buildingId of
                 None \<Rightarrow> False
               | Some b \<Rightarrow> if b = [] then False else hasBuildingId l (Some b))"

text \<open>The id that the colour function of \<^verbatim>\<open>applyBuildingFilter\<close> reads off a feature: the
  first property value, \<^verbatim>\<open>null\<close> and \<^verbatim>\<open>undefined\<close> skipped, whose text is or contains
  sixteen digits.\<close>

fun scan_values :: "propval list \<Rightarrow> string option" where
  "scan_values [] = None"
| "scan_values (v # vs) =
     (if v = PUndefined \<or> v = PNull then scan_values vs
      else if exact16 (js_String v) then Some (js_String v)
      else case match16 (js_String v) of
             Some m \<Rightarrow> Some m
           | None \<Rightarrow> scan_values vs)"

definition inDatasetColor :: color where
  "inDatasetColor = WithAlpha WHITE 0.9"

definition notInDatasetColor :: color where
  "notInDatasetColor = WithAlpha GRAY 0.6"

definition evaluateColor :: "building_data_loader \<Rightarrow> feature \<Rightarrow> color" where
  "evaluateColor l feature =
     (case scan_values (map (getProperty feature) (getPropertyNames feature)) of
        Some b \<Rightarrow> if b \<noteq> [] \<and> hasBuildingId l (Some b) then inDatasetColor else notInDatasetColor
      | None \<Rightarrow> notInDatasetColor)"

text \<open>\<^verbatim>\<open>applyBuildingFilter\<close>: the colour function that it installs on the tilesets, or
  none when the loader is missing or has not loaded.\<close>

definition applyBuildingFilter :: "style_manager \<Rightarrow> (feature \<Rightarrow> color) option" where
  "applyBuildingFilter sm =
     (case buildingDataLoader sm of
        None \<Rightarrow> None
      | Some l \<Rightarrow> if \<not> loaded l then None else Some (evaluateColor l))"

section \<open>BuildingSelector: selection, floor toggle and retry\<close>

subsection \<open>The info panel\<close>

datatype panel_content =
    NoContent
  | Properties "property_record list"
  | ErrorMessage string

record info_panel =
  p_visible :: bool
  p_content :: panel_content
  p_toggleButton :: "bool option"

definition new_info_panel :: info_panel where
  "new_info_panel = \<lparr> p_visible = False, p_content = NoContent, p_toggleButton = None \<rparr>"

definition panel_hide :: "info_panel \<Rightarrow> info_panel" where
  "panel_hide p = p\<lparr> p_visible := False \<rparr>"

text \<open>\<^verbatim>\<open>showError\<close> also empties the building controls, where the toggle button lives.\<close>

definition showError :: "info_panel \<Rightarrow> string \<Rightarrow> info_panel" where
  "showError p message = p\<lparr> p_visible := True, p_content := ErrorMessage message, p_toggleButton := None \<rparr>"

definition displayProperties :: "info_panel \<Rightarrow> property_record list \<Rightarrow> info_panel" where
  "displayProperties p properties =
     (if properties = [] then showError p ''No information available for this building''
      else p\<lparr> p_visible := True, p_content := Properties properties \<rparr>)"

definition addFloorToggleButton :: "info_panel \<Rightarrow> bool \<Rightarrow> info_panel" where
  "addFloorToggleButton p initialState = p\<lparr> p_toggleButton := Some initialState \<rparr>"

definition updateFloorToggleButton :: "info_panel \<Rightarrow> bool \<Rightarrow> info_panel" where
  "updateFloorToggleButton p active =
     (case p_toggleButton p of None \<Rightarrow> p | Some old \<Rightarrow> p\<lparr> p_toggleButton := Some active \<rparr>)"

subsection \<open>State of the selector\<close>

text \<open>
  What the scene answers when a handler asks it: the position under the centre of the
  screen (\<^verbatim>\<open>getSelectedFeaturePosition\<close>), whether the selected feature has a screen
  position, and the point of the globe under it.
\<close>

record env =
  env_scenePosition :: "position option"
  env_hasScreenPosition :: bool
  env_globePick :: "position option"

text \<open>
  A handler that waits for a response or a timer stays pending with the values it has
  captured: the id that was asked for, the position computed before the fetch, the records
  handed to the timer.  Everything else it reads from the selector when it runs.
\<close>

datatype pending_op =
    ClickFetch string
  | ToggleFetch string "position option"
  | ToggleTimer "property_record list"
  | RetryFetch string position
  | RetryTimer "property_record list" position

record selector =
  selectedFeature :: "feature option"
  currentBuildingId :: "string option"
  buildingsWithInfo :: "string set"
  styleManager :: "style_manager option"
  showFloorsForSelectedBuilding :: bool
  floorGenerator :: floor_generator
  dataService :: "property_record data_service"
  infoPanel :: info_panel
  featureColor :: "feature \<rightharpoonup> color"
  floorGenerationError :: "string option"
  pending :: "pending_op list"

definition new_selector :: "style_manager option \<Rightarrow> selector" where
  "new_selector sm =
     \<lparr> selectedFeature = None, currentBuildingId = None, buildingsWithInfo = {},
       styleManager = sm, showFloorsForSelectedBuilding = False,
       floorGenerator = new_floor_generator, dataService = new_data_service,
       infoPanel = new_info_panel, featureColor = Map.empty, floorGenerationError = None,
       pending = [] \<rparr>"

definition markBuildingHasInfo :: "selector \<Rightarrow> string \<Rightarrow> selector" where
  "markBuildingHasInfo s buildingId =
     (if buildingId = [] then s
      else s\<lparr> buildingsWithInfo := insert buildingId (buildingsWithInfo s),
               styleManager := map_option (\<lambda>sm. sm_markBuildingHasInfo sm buildingId) (styleManager s) \<rparr>)"

text \<open>\<^verbatim>\<open>clearSelection\<close> reads the id off the string values of the feature and restores
  the colour of the dataset classification.\<close>

fun scan_string_values :: "propval list \<Rightarrow> string option" where
  "scan_string_values [] = None"
| "scan_string_values (PStr v # vs) =
     (if exact16 v then Some v
      else case match16 v of
             Some m \<Rightarrow> Some m
           | None \<Rightarrow> scan_string_values vs)"
| "scan_string_values (v # vs) = scan_string_values vs"

definition clearSelection :: "selector \<Rightarrow> selector" where
  "clearSelection s =
     (case selectedFeature s of
        None \<Rightarrow> s
      | Some f \<Rightarrow>
          let buildingId = scan_string_values (map (getProperty f) (getPropertyNames f));
              col = (case styleManager s of
                       None \<Rightarrow> WithAlpha WHITE 0.7
                     | Some sm \<Rightarrow>
                         (case buildingId of
                            None \<Rightarrow> WithAlpha WHITE 0.7
                          | Some b \<Rightarrow> if hasBuildingData sm (Some b) then WithAlpha WHITE 0.7
                                      else WithAlpha GRAY 0.5))
          in s\<lparr> featureColor := (featureColor s)(f \<mapsto> col), selectedFeature := None \<rparr>)"

definition selectFeature :: "selector \<Rightarrow> feature \<Rightarrow> selector" where
  "selectFeature s f =
     s\<lparr> selectedFeature := Some f, featureColor := (featureColor s)(f \<mapsto> WithAlpha YELLOW 0.8) \<rparr>"

definition showFloorGenerationError :: "selector \<Rightarrow> string \<Rightarrow> selector" where
  "showFloorGenerationError s message = s\<lparr> floorGenerationError := Some message \<rparr>"

definition hideFloorGenerationError :: "selector \<Rightarrow> selector" where
  "hideFloorGenerationError s = s\<lparr> floorGenerationError := None \<rparr>"

subsection \<open>Floors made by the selector itself\<close>

text \<open>The floor count of \<^verbatim>\<open>createSimpleFloors\<close> and \<^verbatim>\<open>generateFallbackFloors\<close>.\<close>

definition fallback_floor_count :: "property_record \<Rightarrow> int" where
  "fallback_floor_count firstProp =
     (if truthy_positive (aant_bwlg_pnd firstProp) then to_number (aant_bwlg_pnd firstProp)
      else if hoogste_bwlg_pnd firstProp \<noteq> Undefined \<and> laagste_bwlg_pnd firstProp \<noteq> Undefined
      then to_number (hoogste_bwlg_pnd firstProp) - to_number (laagste_bwlg_pnd firstProp) + 1
      else 15)"

definition fallback_color :: "int \<Rightarrow> int \<Rightarrow> color" where
  "fallback_color floorNum floorCount =
     (if floorNum = 0 then WithAlpha RED 0.7
      else if floorNum = floorCount - 1 then WithAlpha BLUE 0.7
      else FromHsl (0.6 - ((real_of_int floorNum / real_of_int floorCount) * 0.6)) 0.8 0.5 0.7)"

definition simple_floor ::
  "string \<Rightarrow> position \<Rightarrow> int \<Rightarrow> property_record list \<Rightarrow> int \<Rightarrow> entity" where
  "simple_floor buildingId pos floorCount properties floorNum =
     (let buildingHeight = real_of_int floorCount * 3.0;
          floorHeight = buildingHeight / real_of_int floorCount;
          baseHeight = height pos - (buildingHeight / 2);
          floorBaseHeight = baseHeight + (real_of_int floorNum * floorHeight);
          floorCenterHeight = floorBaseHeight + (floorHeight / 2)
      in \<lparr> e_id = FloorEntity buildingId floorNum,
           e_position = \<lparr> longitude = longitude pos, latitude = latitude pos, height = floorCenterHeight \<rparr>,
           e_box = Some \<lparr> b_width = 50, b_length = 80, b_height = floorHeight * 0.9 \<rparr>,
           e_parts = [],
           e_color = fallback_color floorNum floorCount,
           e_unitsCount = length (filter (\<lambda>p. bwlg_vb0 p = Num floorNum) properties),
           e_show = True,
           e_children = [] \<rparr>)"

text \<open>\<^verbatim>\<open>createSimpleFloors\<close>: all floor models are removed first; an error of the viewer
  is caught and gives \<^verbatim>\<open>false\<close>.\<close>

definition createSimpleFloors ::
  "floor_generator \<Rightarrow> property_record list \<Rightarrow> position \<Rightarrow> bool \<times> floor_generator" where
  "createSimpleFloors fg properties pos =
     (case properties of
        [] \<Rightarrow> (False, fg)
      | firstProp # rest \<Rightarrow>
          let floorCount = fallback_floor_count firstProp;
              fg1 = removeAllFloorModels fg;
              buildingId = (if pandid firstProp \<noteq> [] then pandid firstProp else ''unknown_building'');
              es = map (simple_floor buildingId pos floorCount properties) [0 .. floorCount - 1];
              (ok, v) = add_entities es (viewer fg1)
          in if \<not> ok then (False, fg1\<lparr> viewer := v \<rparr>)
             else let fg2 = fg1\<lparr> viewer := v,
                                 floorEntities := AList.update buildingId es (floorEntities fg1) \<rparr>
                  in if DebugCenter buildingId \<in> viewer fg2 then (False, fg2)
                     else (length es > 0, fg2\<lparr> viewer := insert (DebugCenter buildingId) (viewer fg2) \<rparr>))"

definition fallback_floor ::
  "string \<Rightarrow> position \<Rightarrow> int \<Rightarrow> property_record list \<Rightarrow> int \<Rightarrow> entity" where
  "fallback_floor buildingId pos floorCount properties floorNum =
     (let floorHeight = 3;
          buildingHeight = real_of_int floorCount * floorHeight;
          buildingBottom = height pos - (buildingHeight / 2);
          floorZ = buildingBottom + (real_of_int floorNum * floorHeight) + (floorHeight / 2)
      in \<lparr> e_id = FloorEntity buildingId floorNum,
           e_position = \<lparr> longitude = longitude pos, latitude = latitude pos, height = floorZ \<rparr>,
           e_box = Some \<lparr> b_width = 30, b_length = 30, b_height = floorHeight * 0.8 \<rparr>,
           e_parts = [],
           e_color = fallback_color floorNum floorCount,
           e_unitsCount = length (filter (\<lambda>p. bwlg_vb0 p = Num floorNum) properties),
           e_show = True,
           e_children = [] \<rparr>)"

text \<open>\<^verbatim>\<open>getSelectedFeaturePosition\<close> and \<^verbatim>\<open>generateFloors\<close>: the generator first, and the
  simple floors when it fails and the scene gives a position.\<close>

definition generateFloors :: "selector \<Rightarrow> property_record list \<Rightarrow> env \<Rightarrow> bool \<times> selector" where
  "generateFloors s properties e =
     (if selectedFeature s = None \<or> properties = [] then (False, s)
      else
        let (success, fg1) = generateFloorModels (floorGenerator s) (selectedFeature s) properties
        in if success then (True, s\<lparr> floorGenerator := fg1 \<rparr>)
           else (case env_scenePosition e of
                   None \<Rightarrow> (False, s\<lparr> floorGenerator := fg1 \<rparr>)
                 | Some pos \<Rightarrow>
                     let (success', fg2) = createSimpleFloors fg1 properties pos
                     in (success', s\<lparr> floorGenerator := fg2 \<rparr>)))"

subsection \<open>The click handler\<close>

text \<open>
  What \<^verbatim>\<open>scene.pick\<close> returned: nothing, a tile feature, or an entity with its id.
\<close>

datatype pick = PickNothing | PickTile feature | PickEntity entity_id

text \<open>The second \<^verbatim>\<open>then\<close> of \<^verbatim>\<open>onLeftClick\<close>, which receives the records, and its
  \<^verbatim>\<open>catch\<close>.  Both read the current building id, the selected feature and the floor flag
  of the selector at the time they run.\<close>

definition properties_received :: "selector \<Rightarrow> property_record list \<Rightarrow> env \<Rightarrow> selector" where
  "properties_received s properties e =
     (if properties \<noteq> [] then
        let s1 = (case currentBuildingId s of Some b \<Rightarrow> markBuildingHasInfo s b | None \<Rightarrow> s);
            s2 = s1\<lparr> infoPanel := displayProperties (infoPanel s1) properties \<rparr>;
            s3 = (if showFloorsForSelectedBuilding s2 then snd (generateFloors s2 properties e) else s2)
        in s3\<lparr> infoPanel := addFloorToggleButton (infoPanel s3) (showFloorsForSelectedBuilding s3) \<rparr>
      else
        s\<lparr> infoPanel := showError (infoPanel s)
               (''No property data available for Building ID: '' @
                  (case currentBuildingId s of Some b \<Rightarrow> b | None \<Rightarrow> ''null'')) \<rparr>)"

definition retrieval_failed :: "selector \<Rightarrow> selector" where
  "retrieval_failed s = s\<lparr> infoPanel := showError (infoPanel s) ''Error retrieving building data'' \<rparr>"

text \<open>\<^verbatim>\<open>onLeftClick\<close>.  The promise of \<^verbatim>\<open>getFeatureBuildingId\<close> is resolved when the
  handler returns, so its \<^verbatim>\<open>then\<close> runs before any other event: it sets the current
  building id and starts the fetch.  A cached answer is handed on at once; otherwise the
  fetch stays pending.\<close>

definition onLeftClick :: "selector \<Rightarrow> pick \<Rightarrow> env \<Rightarrow> selector" where
  "onLeftClick s pickedFeature e =
     (let s1 = clearSelection s in
      case pickedFeature of
        PickTile f \<Rightarrow>
          let s2 = selectFeature s1 f in
          (case getFeatureBuildingId f of
             None \<Rightarrow> retrieval_failed s2
           | Some pandId \<Rightarrow>
               let s3 = s2\<lparr> currentBuildingId := Some pandId \<rparr> in
               (case getPropertiesByPandId_start (dataService s3) pandId of
                  Settled (Inr properties) \<Rightarrow> properties_received s3 properties e
                | Settled (Inl err) \<Rightarrow> retrieval_failed s3
                | Awaiting \<Rightarrow> s3\<lparr> pending := pending s3 @ [ClickFetch pandId] \<rparr>))
      | PickEntity (FloorEntity b n) \<Rightarrow> s1
      | _ \<Rightarrow>
          s1\<lparr> infoPanel := panel_hide (infoPanel s1),
              floorGenerator := removeAllFloorModels (floorGenerator s1),
              currentBuildingId := None \<rparr>)"

subsection \<open>Toggle and retry\<close>

text \<open>\<^verbatim>\<open>getKnownBuildingPosition\<close>: five surveyed buildings, and a default position in
  Rotterdam for every other id.  Longitude and latitude are in degrees here.\<close>

definition rotterdam_default :: position where
  "rotterdam_default = \<lparr> longitude = 4.47917, latitude = 51.9225, height = 40 \<rparr>"

definition knownBuildings :: "(string \<times> position) list" where
  "knownBuildings =
     [(''0599100000035588'', \<lparr> longitude = 4.4727, latitude = 51.92237, height = 60 \<rparr>),
      (''0599100000305732'', \<lparr> longitude = 4.47305, latitude = 51.92235, height = 50 \<rparr>),
      (''0599100000603742'', \<lparr> longitude = 4.47423, latitude = 51.92156, height = 45 \<rparr>),
      (''0599100000679233'', \<lparr> longitude = 4.47387, latitude = 51.92348, height = 55 \<rparr>),
      (''0599100000603801'', \<lparr> longitude = 4.47302, latitude = 51.92119, height = 40 \<rparr>)]"

definition getKnownBuildingPosition :: "string option \<Rightarrow> position" where
  "getKnownBuildingPosition buildingId =
     (case buildingId of
        None \<Rightarrow> rotterdam_default
      | Some b \<Rightarrow> (case map_of knownBuildings b of Some pos \<Rightarrow> pos | None \<Rightarrow> rotterdam_default))"

text \<open>\<^verbatim>\<open>getEarthPositionFromScreen\<close> applied to the screen position of the selected
  feature.\<close>

definition earthPosition :: "selector \<Rightarrow> env \<Rightarrow> position option" where
  "earthPosition s e =
     (if selectedFeature s = None \<or> \<not> env_hasScreenPosition e then None
      else case env_globePick e of
             Some pos \<Rightarrow> Some pos
           | None \<Rightarrow> Some (getKnownBuildingPosition (currentBuildingId s)))"

text \<open>The \<^verbatim>\<open>then\<close> of the fetch in \<^verbatim>\<open>toggleFloorModels\<close>, its \<^verbatim>\<open>catch\<close>, and the
  function run by the timer.  A position stored while no building is current has a key
  that no lookup uses; the model does not keep it.\<close>

definition toggle_properties_received ::
  "selector \<Rightarrow> property_record list \<Rightarrow> position option \<Rightarrow> selector" where
  "toggle_properties_received s properties earth =
     (if properties \<noteq> [] then
        let s1 = (case selectedFeature s of
                    None \<Rightarrow> s
                  | Some f \<Rightarrow> s\<lparr> featureColor := (featureColor s)(f \<mapsto> WithAlpha YELLOW 0.9) \<rparr>);
            s2 = (case earth of
                    None \<Rightarrow> s1
                  | Some pos \<Rightarrow>
                      (case currentBuildingId s1 of
                         None \<Rightarrow> s1
                       | Some b \<Rightarrow>
                           s1\<lparr> floorGenerator :=
                                 setBuildingPosition (floorGenerator s1) b
                                   \<lparr> pi_position = pos, pi_isManual = False \<rparr> \<rparr>))
        in s2\<lparr> pending := pending s2 @ [ToggleTimer properties] \<rparr>
      else showFloorGenerationError s ''No properties found for this building'')"

definition toggle_timer :: "selector \<Rightarrow> property_record list \<Rightarrow> selector" where
  "toggle_timer s properties =
     (let (success, fg1) = generateFloorModels (floorGenerator s) (selectedFeature s) properties;
          s1 = s\<lparr> floorGenerator := fg1 \<rparr>
      in if success then s1 else showFloorGenerationError s1 ''Failed to generate floor models'')"

definition toggleFloorModels :: "selector \<Rightarrow> bool \<Rightarrow> env \<Rightarrow> selector" where
  "toggleFloorModels s visible e =
     (let s1 = hideFloorGenerationError (s\<lparr> showFloorsForSelectedBuilding := visible \<rparr>) in
      case currentBuildingId s1 of
        None \<Rightarrow> s1
      | Some b \<Rightarrow>
          if b = [] then s1 else
          let s2 =
            (if visible then
               (case selectedFeature s1 of
                  None \<Rightarrow> showFloorGenerationError s1 ''No building selected''
                | Some f \<Rightarrow>
                    let s1a = s1\<lparr> floorGenerator := removeAllFloorModels (floorGenerator s1) \<rparr>;
                        earth = earthPosition s1a e
                    in (case getPropertiesByPandId_start (dataService s1a) b of
                          Settled (Inr properties) \<Rightarrow> toggle_properties_received s1a properties earth
                        | Settled (Inl err) \<Rightarrow> showFloorGenerationError s1a ''Error fetching building data''
                        | Awaiting \<Rightarrow> s1a\<lparr> pending := pending s1a @ [ToggleFetch b earth] \<rparr>))
             else
               let s1b = s1\<lparr> floorGenerator := snd (setFloorsVisible (floorGenerator s1) b False) \<rparr>
               in (case selectedFeature s1b of
                     None \<Rightarrow> s1b
                   | Some f \<Rightarrow> s1b\<lparr> featureColor := (featureColor s1b)(f \<mapsto> WithAlpha YELLOW 0.7) \<rparr>))
          in s2\<lparr> infoPanel := updateFloorToggleButton (infoPanel s2) visible \<rparr>)"

text \<open>\<^verbatim>\<open>generateFallbackFloors\<close>: floors of three metres at the given position, stored
  under the current building id (the text \<^verbatim>\<open>null\<close> stands for no current building).\<close>

definition generateFallbackFloors :: "selector \<Rightarrow> property_record list \<Rightarrow> position \<Rightarrow> selector" where
  "generateFallbackFloors s properties pos =
     (case properties of
        [] \<Rightarrow> s
      | firstProp # rest \<Rightarrow>
          let fg = floorGenerator s;
              buildingId = (case currentBuildingId s of Some b \<Rightarrow> b | None \<Rightarrow> ''null'');
              floorCount = fallback_floor_count firstProp;
              es = map (fallback_floor buildingId pos floorCount properties) [0 .. floorCount - 1];
              (ok, v) = add_entities es (viewer fg)
          in if \<not> ok
             then showFloorGenerationError (s\<lparr> floorGenerator := fg\<lparr> viewer := v \<rparr> \<rparr>)
                    ''Failed to generate fallback floors''
             else let fg1 = fg\<lparr> viewer := v,
                               floorEntities := AList.update buildingId es (floorEntities fg) \<rparr>
                  in if BuildingOutline buildingId \<in> viewer fg1
                     then showFloorGenerationError (s\<lparr> floorGenerator := fg1 \<rparr>)
                            ''Failed to generate fallback floors''
                     else s\<lparr> floorGenerator :=
                               fg1\<lparr> viewer := insert (BuildingOutline buildingId) (viewer fg1) \<rparr> \<rparr>)"

text \<open>\<^verbatim>\<open>retryFloorGeneration\<close>, the \<^verbatim>\<open>then\<close> of its fetch and the function run by its
  timer.\<close>

definition retry_properties_received ::
  "selector \<Rightarrow> property_record list \<Rightarrow> position \<Rightarrow> selector" where
  "retry_properties_received s properties pos =
     (if properties \<noteq> [] then s\<lparr> pending := pending s @ [RetryTimer properties pos] \<rparr>
      else showFloorGenerationError s ''No properties found for this building'')"

definition retry_timer :: "selector \<Rightarrow> property_record list \<Rightarrow> position \<Rightarrow> selector" where
  "retry_timer s properties pos =
     (let (success, fg1) = generateFloorModels (floorGenerator s) (selectedFeature s) properties;
          s1 = s\<lparr> floorGenerator := fg1 \<rparr>
      in if success then s1 else generateFallbackFloors s1 properties pos)"

definition retryFloorGeneration :: "selector \<Rightarrow> selector" where
  "retryFloorGeneration s =
     (case currentBuildingId s of
        None \<Rightarrow> s
      | Some b \<Rightarrow>
          if b = [] then s else
          let pos = getKnownBuildingPosition (Some b);
              s1 = s\<lparr> floorGenerator :=
                         setBuildingPosition (removeAllFloorModels (floorGenerator s)) b
                           \<lparr> pi_position = pos, pi_isManual = True \<rparr> \<rparr>
          in (case getPropertiesByPandId_start (dataService s1) b of
                Settled (Inr properties) \<Rightarrow> retry_properties_received s1 properties pos
              | Settled (Inl err) \<Rightarrow> showFloorGenerationError s1 ''Error fetching building data''
              | Awaiting \<Rightarrow> s1\<lparr> pending := pending s1 @ [RetryFetch b pos] \<rparr>))"

subsection \<open>Events\<close>

text \<open>
  The handlers run one at a time, each to its end.  An event is a click on the scene, a
  click on the toggle button of the panel or on the retry button of the error box, the
  arrival of the response that a pending handler waits for, or the firing of a pending
  timer.  An event that is not possible in a state leaves it as it is.
\<close>

datatype event =
    LeftClick pick env
  | ToggleClick env
  | RetryClick
  | FetchDone nat "property_record fetch_outcome" env
  | TimerDone nat

definition remove_nth :: "nat \<Rightarrow> 'a list \<Rightarrow> 'a list" where
  "remove_nth k xs = take k xs @ drop (Suc k) xs"

definition fetch_done :: "selector \<Rightarrow> nat \<Rightarrow> property_record fetch_outcome \<Rightarrow> env \<Rightarrow> selector" where
  "fetch_done s k outcome e =
     (if k < length (pending s) then
        (case pending s ! k of
           ClickFetch pandId \<Rightarrow>
             let (r, ds) = getPropertiesByPandId_finish (dataService s) pandId outcome;
                 s1 = s\<lparr> dataService := ds, pending := remove_nth k (pending s) \<rparr>
             in (case r of
                   Inr properties \<Rightarrow> properties_received s1 properties e
                 | Inl err \<Rightarrow> retrieval_failed s1)
         | ToggleFetch pandId earth \<Rightarrow>
             let (r, ds) = getPropertiesByPandId_finish (dataService s) pandId outcome;
                 s1 = s\<lparr> dataService := ds, pending := remove_nth k (pending s) \<rparr>
             in (case r of
                   Inr properties \<Rightarrow> toggle_properties_received s1 properties earth
                 | Inl err \<Rightarrow> showFloorGenerationError s1 ''Error fetching building data'')
         | RetryFetch pandId pos \<Rightarrow>
             let (r, ds) = getPropertiesByPandId_finish (dataService s) pandId outcome;
                 s1 = s\<lparr> dataService := ds, pending := remove_nth k (pending s) \<rparr>
             in (case r of
                   Inr properties \<Rightarrow> retry_properties_received s1 properties pos
                 | Inl err \<Rightarrow> showFloorGenerationError s1 ''Error fetching building data'')
         | _ \<Rightarrow> s)
      else s)"

definition timer_done :: "selector \<Rightarrow> nat \<Rightarrow> selector" where
  "timer_done s k =
     (if k < length (pending s) then
        (case pending s ! k of
           ToggleTimer properties \<Rightarrow> toggle_timer (s\<lparr> pending := remove_nth k (pending s) \<rparr>) properties
         | RetryTimer properties pos \<Rightarrow>
             retry_timer (s\<lparr> pending := remove_nth k (pending s) \<rparr>) properties pos
         | _ \<Rightarrow> s)
      else s)"

fun step :: "selector \<Rightarrow> event \<Rightarrow> selector" where
  "step s (LeftClick p e) = onLeftClick s p e"
| "step s (ToggleClick e) =
     (case p_toggleButton (infoPanel s) of
        None \<Rightarrow> s
      | Some active \<Rightarrow> if p_visible (infoPanel s) then toggleFloorModels s (\<not> active) e else s)"
| "step s RetryClick =
     (if floorGenerationError s \<noteq> None then retryFloorGeneration (hideFloorGenerationError s) else s)"
| "step s (FetchDone k outcome e) = fetch_done s k outcome e"
| "step s (TimerDone k) = timer_done s k"

definition run :: "selector \<Rightarrow> event list \<Rightarrow> selector" where
  "run s evs = foldl step s evs"

section \<open>Notions of the specification and sample inputs\<close>

text \<open>
  The floor count as the specification words it: the total-floor field of the first record
  when it is positive; else highest minus lowest floor plus one when both fields are
  present; else the number of distinct floor indices observed; else 15.  A field is
  present when it is not \<^verbatim>\<open>undefined\<close>.
\<close>

definition distinct_floor_indices :: "property_record list \<Rightarrow> int set" where
  "distinct_floor_indices records =
     set (map (\<lambda>r. to_number (bwlg_vb0 r))
              (filter (\<lambda>r. bwlg_vb0 r \<noteq> Undefined \<and> bwlg_vb0 r \<noteq> Null) records))"

definition present :: "jsnum \<Rightarrow> bool" where
  "present v = (v \<noteq> Undefined)"

definition spec_floor_count :: "property_record list \<Rightarrow> int" where
  "spec_floor_count records =
     (let r = hd records in
      if truthy_positive (aant_bwlg_pnd r) then to_number (aant_bwlg_pnd r)
      else if present (hoogste_bwlg_pnd r) \<and> present (laagste_bwlg_pnd r)
      then to_number (hoogste_bwlg_pnd r) - to_number (laagste_bwlg_pnd r) + 1
      else if distinct_floor_indices records \<noteq> {} then int (card (distinct_floor_indices records))
      else 15)"

text \<open>The vertical range of a floor: the code keeps the centre of each floor only; its
  range is the interval of one floor height around the centre.\<close>

definition zLow :: "real \<Rightarrow> entity \<Rightarrow> real" where
  "zLow floorHeight e = height (e_position e) - floorHeight / 2"

definition zHigh :: "real \<Rightarrow> entity \<Rightarrow> real" where
  "zHigh floorHeight e = height (e_position e) + floorHeight / 2"

text \<open>An entity with its visibility flags put aside.\<close>

definition forget_show :: "entity \<Rightarrow> entity" where
  "forget_show e = e\<lparr> e_show := True, e_children := map (\<lambda>child. True) (e_children e) \<rparr>"

text \<open>Sample inputs: a feature of height 30 whose tile sphere is centred at height 20,
  a building of three floors, and records that carry a floor index only.\<close>

definition demo_feature :: feature where
  "demo_feature =
     \<lparr> f_props = [(''id'', PStr ''0599100000668111'')],
       f_height = Some 30,
       f_content =
         Some \<lparr> c_tile = Some \<lparr> t_transform = None,
                                t_boundingSphere =
                                  Some \<lparr> s_center = \<lparr> longitude = 1, latitude = 2, height = 20 \<rparr>,
                                         s_radius = 25 \<rparr> \<rparr>,
                c_modelTranslation = None, c_boundingSphere = None, c_url = None,
                c_batchTable = None \<rparr>,
       f_primitiveSphere = None,
       f_primitiveId = None \<rparr>"

definition demo_records :: "property_record list" where
  "demo_records =
     [\<lparr> pandid = ''0599100000668111'', bwlg_vb0 = Num 0, laagste_bwlg_pnd = Num 0,
        hoogste_bwlg_pnd = Num 2, aant_bwlg_pnd = Num 3 \<rparr>]"

definition rec_on_floor :: "int \<Rightarrow> property_record" where
  "rec_on_floor n =
     \<lparr> pandid = ''0599100000668111'', bwlg_vb0 = Num n, laagste_bwlg_pnd = Undefined,
       hoogste_bwlg_pnd = Undefined, aant_bwlg_pnd = Undefined \<rparr>"

text \<open>A feature that carries its id under a canonical name, and one whose only property
  embeds the sixteen digits in a longer text.\<close>

definition pandid_feature :: feature where
  "pandid_feature =
     \<lparr> f_props = [(''name'', PStr ''Blok A''), (''PANDID'', PStr ''0599100000668111'')],
       f_height = None, f_content = None, f_primitiveSphere = None, f_primitiveId = None \<rparr>"

definition embedded_feature :: feature where
  "embedded_feature =
     \<lparr> f_props = [(''name'', PStr ''bldg_0599100000668111'')],
       f_height = None, f_content = None, f_primitiveSphere = None, f_primitiveId = None \<rparr>"

text \<open>The value that a batch table returns for a name.\<close>

definition table_value :: "(string \<times> propval) list \<Rightarrow> string \<Rightarrow> propval" where
  "table_value table name = (case map_of table name of Some v \<Rightarrow> v | None \<Rightarrow> PUndefined)"


text \<open>The buildings whose stored floor entities include one that is shown.\<close>

definition shown_buildings :: "floor_generator \<Rightarrow> string list" where
  "shown_buildings fg = map fst (filter (\<lambda>entry. list_ex e_show (snd entry)) (floorEntities fg))"

text \<open>A second feature with its records, what the scene answers, and three sequences of
  events: a second pick while the fetch of the first is pending; floors shown for one
  building and then a pick of another; a failed floor generation before a retry.\<close>

definition demo_feature_b :: feature where
  "demo_feature_b =
     \<lparr> f_props = [(''id'', PStr ''0599100000123456'')],
       f_height = Some 20,
       f_content =
         Some \<lparr> c_tile = Some \<lparr> t_transform = None,
                                t_boundingSphere =
                                  Some \<lparr> s_center = \<lparr> longitude = 3, latitude = 4, height = 10 \<rparr>,
                                         s_radius = 25 \<rparr> \<rparr>,
                c_modelTranslation = None, c_boundingSphere = None, c_url = None,
                c_batchTable = None \<rparr>,
       f_primitiveSphere = None,
       f_primitiveId = None \<rparr>"

definition demo_records_b :: "property_record list" where
  "demo_records_b =
     [\<lparr> pandid = ''0599100000123456'', bwlg_vb0 = Num 0, laagste_bwlg_pnd = Num 0,
        hoogste_bwlg_pnd = Num 1, aant_bwlg_pnd = Num 2 \<rparr>]"

definition demo_env :: env where
  "demo_env = \<lparr> env_scenePosition = Some \<lparr> longitude = 1, latitude = 2, height = 20 \<rparr>,
                env_hasScreenPosition = True,
                env_globePick = Some \<lparr> longitude = 1, latitude = 2, height = 0 \<rparr> \<rparr>"

definition picked_position :: position where
  "picked_position = \<lparr> longitude = 1, latitude = 2, height = 0 \<rparr>"

definition stale_trace :: "event list" where
  "stale_trace =
     [LeftClick (PickTile demo_feature) demo_env,
      LeftClick (PickTile demo_feature_b) demo_env,
      FetchDone 0 (Response 200 (JsonArray demo_records)) demo_env]"

definition retry_trace :: "event list" where
  "retry_trace =
     [LeftClick (PickTile pandid_feature) demo_env,
      FetchDone 0 (Response 200 (JsonArray demo_records)) demo_env,
      ToggleClick demo_env,
      TimerDone 0]"

definition two_buildings_trace :: "event list" where
  "two_buildings_trace =
     [LeftClick (PickTile demo_feature) demo_env,
      FetchDone 0 (Response 200 (JsonArray demo_records)) demo_env,
      ToggleClick demo_env,
      TimerDone 0,
      LeftClick (PickTile demo_feature_b) demo_env,
      FetchDone 0 (Response 200 (JsonArray demo_records_b)) demo_env]"


text \<open>
  The hue of a colour in the HSL model, for the named colours of the engine that have one
  (red 0, yellow 1/6, blue 2/3) and for a colour made from hue, saturation and lightness.
  The hue that the specification words: the linear interpolation between the hues of the
  ground colour and of the top colour at the fraction index / (floorCount - 1).
\<close>

fun named_hue :: "named_color \<Rightarrow> real option" where
  "named_hue RED = Some 0"
| "named_hue YELLOW = Some (1 / 6)"
| "named_hue BLUE = Some (2 / 3)"
| "named_hue WHITE = None"
| "named_hue GRAY = None"
| "named_hue BLACK = None"

fun color_hue :: "color \<Rightarrow> real option" where
  "color_hue (WithAlpha c a) = named_hue c"
| "color_hue (FromHsl h s l a) = Some h"

definition spec_interpolated_hue :: "color \<Rightarrow> color \<Rightarrow> real \<Rightarrow> real option" where
  "spec_interpolated_hue groundColor topColor t =
     (case (color_hue groundColor, color_hue topColor) of
        (Some hg, Some ht) \<Rightarrow> Some (hg + t * (ht - hg))
      | _ \<Rightarrow> None)"

text \<open>A loader whose load has failed, a style manager that holds it, and a pick of a
  building followed by a click on empty space.\<close>

definition unloaded_loader :: building_data_loader where
  "unloaded_loader = snd (loadBuildingIdsFromFile new_building_data_loader Rejected)"

definition unloaded_style_manager :: style_manager where
  "unloaded_style_manager = \<lparr> buildingDataLoader = Some unloaded_loader, sm_buildingsWithInfo = {} \<rparr>"

definition deselect_trace :: "event list" where
  "deselect_trace =
     [LeftClick (PickTile pandid_feature) demo_env,
      LeftClick PickNothing demo_env]"

section \<open>Theorems\<close>

subsection \<open>C10: getAllPandIds never rejects\<close>

lemma await_json_failure:
  "transport_failure outcome \<Longrightarrow> \<exists>e. await_json outcome = Inl e"
  by (cases outcome) auto

text \<open>
  C10.  \<^verbatim>\<open>getAllPandIds\<close> never rejects: for every service state and every outcome of the
  network call its promise is fulfilled.  When nothing is cached and the transport fails,
  it is fulfilled with the empty array, the same value that a successful load of an empty
  dataset gives; \<^verbatim>\<open>getPropertiesByPandId\<close> in the same situation rejects.
\<close>

theorem getAllPandIds_never_rejects:
  "(\<exists>ids s'. getAllPandIds s outcome = (Inr ids, s')) \<and>
   (databaseBuildingIds s = None \<and> transport_failure outcome \<longrightarrow>
      fst (getAllPandIds s outcome) = Inr [] \<and>
      fst (getAllPandIds s outcome) = fst (getAllPandIds s (Response 200 (JsonArray [])))) \<and>
   (pandId \<noteq> [] \<and> cache s pandId = None \<and> transport_failure (outcome' :: 'r fetch_outcome) \<longrightarrow>
      (\<exists>e. fst (getPropertiesByPandId s pandId outcome') = Inl e))"
proof -
  have fulfilled: "\<exists>ids s'. getAllPandIds s outcome = (Inr ids, s')"
    by (auto simp: getAllPandIds_def split: sum.splits prod.splits)
  have empty: "fst (getAllPandIds s outcome) = Inr [] \<and>
      fst (getAllPandIds s outcome) = fst (getAllPandIds s (Response 200 (JsonArray [])))"
    if a: "databaseBuildingIds s = None \<and> transport_failure outcome"
  proof -
    from a obtain e where "await_json outcome = Inl e"
      using await_json_failure by blast
    with a show ?thesis
      by (simp add: getAllPandIds_def getAllPandIds_try_def response_ok_def)
  qed
  have rethrown: "\<exists>e. fst (getPropertiesByPandId s pandId outcome') = Inl e"
    if a: "pandId \<noteq> [] \<and> cache s pandId = None \<and> transport_failure outcome'"
  proof -
    from a obtain e where "await_json outcome' = Inl e"
      using await_json_failure by blast
    with a show ?thesis
      by (simp add: getPropertiesByPandId_def getPropertiesByPandId_start_def
          getPropertiesByPandId_finish_def)
  qed
  from fulfilled empty rethrown show ?thesis by blast
qed

theorem getAllPandIds_never_rejects_witness:
  "fst (getAllPandIds (new_data_service :: unit data_service) (Response 500 BadJson)) = Inr [] \<and>
   fst (getAllPandIds (new_data_service :: unit data_service) Rejected) = Inr [] \<and>
   fst (getPropertiesByPandId (new_data_service :: unit data_service) ''0599100000668111'' Rejected)
     = Inl NetworkFailure"
proof -
  have f: "transport_failure (Response 500 BadJson :: string fetch_outcome)"
    by (simp add: response_ok_def)
  have n: "databaseBuildingIds (new_data_service :: unit data_service) = None"
    by (simp add: new_data_service_def)
  have "fst (getAllPandIds (new_data_service :: unit data_service) (Response 500 BadJson)) = Inr []"
    using getAllPandIds_never_rejects
      [of "new_data_service :: unit data_service" "Response 500 BadJson" "''x''" Rejected] f n
    by blast
  then show ?thesis
    by (simp add: getAllPandIds_def getAllPandIds_try_def getPropertiesByPandId_def
        getPropertiesByPandId_start_def getPropertiesByPandId_finish_def new_data_service_def)
qed

subsection \<open>The sample inputs, evaluated\<close>

lemma demo_id: "extractBuildingId (Some demo_feature) = Some ''0599100000668111''"
  by (simp add: extractBuildingId_def demo_feature_def getProperty_def first_truthy_def)

lemma demo_geo: "extractDetailedGeometry (Some demo_feature) None =
   Some \<lparr> g_position = \<lparr> longitude = 1, latitude = 2, height = 20 \<rparr>, g_width = 32, g_length = 32, g_height = 30, g_isLShaped = False \<rparr>"
  by (simp add: extractDetailedGeometry_def demo_feature_def feature_position_def feature_sphere_def
      extractBuildingId_def getProperty_def first_truthy_def)

lemma demo_info: "getDetailedFloorInfo demo_records = Some \<lparr> totalFloors = 3, floorUnits = [1, 0, 0] \<rparr>"
  by (simp add: getDetailedFloorInfo_def demo_records_def upt_rec)

lemma demo_gen: "fst (generateFloorModels new_floor_generator (Some demo_feature) demo_records) = True"
  by (simp add: generateFloorModels_def demo_id demo_geo demo_info new_floor_generator_def
      getBuildingPosition_def addDebugMarker_def removeFloorModels_def Let_def floor_entity_def
      createFloorEntityFromGeometry_def upto_rec1 split: prod.splits)

lemma demo_pos: "getBuildingPosition new_floor_generator b = None"
  by (simp add: getBuildingPosition_def new_floor_generator_def)


lemma id_b: "extractBuildingId (Some demo_feature_b) = Some ''0599100000123456''"
  by (simp add: extractBuildingId_def demo_feature_b_def getProperty_def first_truthy_def)

lemma pand_a: "getFeatureBuildingId demo_feature = Some ''0599100000668111''"
  by (simp add: getFeatureBuildingId_def canonical_names_def demo_feature_def hasProperty_def
      getProperty_def exact16_def is_digit_def)

lemma pand_b: "getFeatureBuildingId demo_feature_b = Some ''0599100000123456''"
  by (simp add: getFeatureBuildingId_def canonical_names_def demo_feature_b_def hasProperty_def
      getProperty_def exact16_def is_digit_def)

lemma scan_a: "scan_string_values (map (getProperty demo_feature) (getPropertyNames demo_feature)) = Some ''0599100000668111''"
  by (simp add: demo_feature_def getProperty_def getPropertyNames_def exact16_def is_digit_def)

lemma demo_env_alt: "demo_env = \<lparr> env_scenePosition = Some \<lparr> longitude = 1, latitude = 2, height = 20 \<rparr>,
                env_hasScreenPosition = True,
                env_globePick = Some picked_position \<rparr>"
  by (simp add: demo_env_def picked_position_def)

lemma demo_geo_stored:
  "extractDetailedGeometry (Some demo_feature) (Some \<lparr> pi_position = picked_position, pi_isManual = False \<rparr>) =
   Some \<lparr> g_position = picked_position, g_width = 32, g_length = 32, g_height = 30, g_isLShaped = False \<rparr>"
  by (simp add: extractDetailedGeometry_def demo_feature_def feature_position_def feature_sphere_def
      extractBuildingId_def getProperty_def first_truthy_def)

lemma demo_geo_b: "extractDetailedGeometry (Some demo_feature_b) None =
   Some \<lparr> g_position = \<lparr> longitude = 3, latitude = 4, height = 10 \<rparr>, g_width = 32, g_length = 32, g_height = 20, g_isLShaped = False \<rparr>"
  by (simp add: extractDetailedGeometry_def demo_feature_b_def feature_position_def feature_sphere_def
      extractBuildingId_def getProperty_def first_truthy_def)

lemma demo_info_b: "getDetailedFloorInfo demo_records_b = Some \<lparr> totalFloors = 2, floorUnits = [1, 0] \<rparr>"
  by (simp add: getDetailedFloorInfo_def demo_records_b_def upt_rec)

lemma click_a:
  "step (new_selector None) (LeftClick (PickTile demo_feature) demo_env) =
     (new_selector None)\<lparr> selectedFeature := Some demo_feature,
       featureColor := [demo_feature \<mapsto> WithAlpha YELLOW 0.8],
       currentBuildingId := Some ''0599100000668111'', pending := [ClickFetch ''0599100000668111''] \<rparr>"
  by (simp add: onLeftClick_def clearSelection_def selectFeature_def pand_a
      getPropertiesByPandId_start_def new_selector_def new_data_service_def)

lemma click_a_b:
  "run (new_selector None) [LeftClick (PickTile demo_feature) demo_env,
                            LeftClick (PickTile demo_feature_b) demo_env] =
     (new_selector None)\<lparr> selectedFeature := Some demo_feature_b,
       featureColor := [demo_feature \<mapsto> WithAlpha WHITE 0.7, demo_feature_b \<mapsto> WithAlpha YELLOW 0.8],
       currentBuildingId := Some ''0599100000123456'',
       pending := [ClickFetch ''0599100000668111'', ClickFetch ''0599100000123456''] \<rparr>"
  unfolding run_def foldl.simps click_a
  by (simp add: onLeftClick_def clearSelection_def selectFeature_def pand_b scan_a
      getPropertiesByPandId_start_def new_selector_def new_data_service_def)

lemma pandid_id: "getFeatureBuildingId pandid_feature = Some ''0599100000668111''"
  by (simp add: getFeatureBuildingId_def canonical_names_def pandid_feature_def hasProperty_def
      getProperty_def exact16_def is_digit_def)

lemma no_id: "extractBuildingId (Some pandid_feature) = None"
  by (simp add: extractBuildingId_def pandid_feature_def getProperty_def first_truthy_def)

lemma retry_trace_state:
  "run (new_selector None) retry_trace =
     (new_selector None)\<lparr> selectedFeature := Some pandid_feature,
       currentBuildingId := Some ''0599100000668111'',
       buildingsWithInfo := {''0599100000668111''},
       showFloorsForSelectedBuilding := True,
       floorGenerator := new_floor_generator\<lparr> buildingPositions :=
          [''0599100000668111'' \<mapsto> \<lparr> pi_position = picked_position, pi_isManual = False \<rparr>],
          viewer := {} \<rparr>,
       dataService := \<lparr> cache = [''0599100000668111'' \<mapsto> demo_records], databaseBuildingIds = None \<rparr>,
       infoPanel := \<lparr> p_visible = True, p_content = Properties demo_records, p_toggleButton = Some True \<rparr>,
       featureColor := [pandid_feature \<mapsto> WithAlpha YELLOW 0.9],
       floorGenerationError := Some ''Failed to generate floor models'',
       pending := [] \<rparr>"
proof -
  define S1 where "S1 = step (new_selector None) (LeftClick (PickTile pandid_feature) demo_env)"
  define S2 where "S2 = step S1 (FetchDone 0 (Response 200 (JsonArray demo_records)) demo_env)"
  define S3 where "S3 = step S2 (ToggleClick demo_env)"
  define S4 where "S4 = step S3 (TimerDone 0)"
  define fg3 where "fg3 = new_floor_generator\<lparr> buildingPositions :=
      [''0599100000668111'' \<mapsto> \<lparr> pi_position = picked_position, pi_isManual = False \<rparr>] \<rparr>"
  have s1: "S1 = (new_selector None)\<lparr> selectedFeature := Some pandid_feature,
       featureColor := [pandid_feature \<mapsto> WithAlpha YELLOW 0.8],
       currentBuildingId := Some ''0599100000668111'', pending := [ClickFetch ''0599100000668111''] \<rparr>"
    by (simp add: S1_def onLeftClick_def clearSelection_def selectFeature_def pandid_id
        getPropertiesByPandId_start_def new_selector_def new_data_service_def)
  have s2: "S2 = S1\<lparr> dataService := \<lparr> cache = [''0599100000668111'' \<mapsto> demo_records], databaseBuildingIds = None \<rparr>,
       pending := [], buildingsWithInfo := {''0599100000668111''},
       infoPanel := \<lparr> p_visible = True, p_content = Properties demo_records, p_toggleButton = Some False \<rparr> \<rparr>"
    by (simp add: S2_def s1 fetch_done_def getPropertiesByPandId_finish_def response_ok_def
        remove_nth_def new_selector_def properties_received_def markBuildingHasInfo_def
        displayProperties_def addFloorToggleButton_def demo_records_def new_info_panel_def
        new_data_service_def)
  have s3: "S3 = S2\<lparr> showFloorsForSelectedBuilding := True,
       featureColor := [pandid_feature \<mapsto> WithAlpha YELLOW 0.9],
       floorGenerator := fg3, pending := [ToggleTimer demo_records],
       infoPanel := \<lparr> p_visible = True, p_content = Properties demo_records, p_toggleButton = Some True \<rparr> \<rparr>"
    by (simp add: S3_def s2 s1 fg3_def toggleFloorModels_def hideFloorGenerationError_def
        new_selector_def removeAllFloorModels_def new_floor_generator_def earthPosition_def
        demo_env_alt getPropertiesByPandId_start_def toggle_properties_received_def
        setBuildingPosition_def updateFloorToggleButton_def demo_records_def)
  have g4: "generateFloorModels fg3 (Some pandid_feature) demo_records = (False, fg3)"
    by (simp add: generateFloorModels_def no_id)
  have s4: "S4 = S3\<lparr> pending := [], floorGenerationError := Some ''Failed to generate floor models'' \<rparr>"
    by (simp add: S4_def s3 s2 s1 timer_done_def remove_nth_def toggle_timer_def g4 new_selector_def
        showFloorGenerationError_def)
  have run: "run (new_selector None) retry_trace = S4"
    by (simp add: run_def retry_trace_def S4_def S3_def S2_def S1_def)
  show ?thesis
    unfolding run s4 s3 s2 s1 fg3_def
    by (simp add: new_selector_def new_floor_generator_def)
qed


subsection \<open>C2: resolution of the floor count\<close>

lemma fold_insert_floors:
  "distinct acc \<Longrightarrow>
   distinct (fold (\<lambda>prop acc. if bwlg_vb0 prop \<noteq> Undefined \<and> bwlg_vb0 prop \<noteq> Null
                       then List.insert (to_number (bwlg_vb0 prop)) acc else acc) ps acc) \<and>
   set (fold (\<lambda>prop acc. if bwlg_vb0 prop \<noteq> Undefined \<and> bwlg_vb0 prop \<noteq> Null
                       then List.insert (to_number (bwlg_vb0 prop)) acc else acc) ps acc)
     = set acc \<union> distinct_floor_indices ps"
proof (induction ps arbitrary: acc)
  case Nil
  then show ?case by (simp add: distinct_floor_indices_def)
next
  case (Cons p ps)
  then show ?case by (auto simp: distinct_floor_indices_def)
qed

lemma uniqueFloors_card: "length (uniqueFloors ps) = card (distinct_floor_indices ps)"
proof -
  have "distinct (uniqueFloors ps) \<and> set (uniqueFloors ps) = distinct_floor_indices ps"
    using fold_insert_floors [of "[]" ps] by (simp add: uniqueFloors_def)
  then show ?thesis by (metis distinct_card)
qed

lemma uniqueFloors_empty: "(length (uniqueFloors ps) > 0) = (distinct_floor_indices ps \<noteq> {})"
proof -
  have "finite (distinct_floor_indices ps)" by (simp add: distinct_floor_indices_def)
  then show ?thesis by (simp add: uniqueFloors_card card_gt_0_iff)
qed

text \<open>
  C2 (as amended).  For a non-empty record list, \<^verbatim>\<open>getTotalFloors\<close> resolves the floor
  count by the priority of the specification (total-floor field, floor range, distinct
  floor indices, 15).  The count that \<^verbatim>\<open>generateFloorModels\<close> uses comes from
  \<^verbatim>\<open>getDetailedFloorInfo\<close>: the total-floor field of the first record when positive, else
  the floor range when both fields are present, else the constant 9.
\<close>

theorem floor_count_resolution:
  "records \<noteq> [] \<Longrightarrow>
     getTotalFloors records = spec_floor_count records \<and>
     map_option totalFloors (getDetailedFloorInfo records) =
       Some (if truthy_positive (aant_bwlg_pnd (hd records)) then to_number (aant_bwlg_pnd (hd records))
             else if present (hoogste_bwlg_pnd (hd records)) \<and> present (laagste_bwlg_pnd (hd records))
             then to_number (hoogste_bwlg_pnd (hd records)) - to_number (laagste_bwlg_pnd (hd records)) + 1
             else 9)"
proof (cases records)
  case Nil
  assume "records \<noteq> []"
  with Nil show ?thesis by simp
next
  case (Cons r rs)
  have "getTotalFloors records = spec_floor_count records"
    unfolding getTotalFloors_def spec_floor_count_def Cons
    by (simp add: present_def uniqueFloors_card uniqueFloors_empty [symmetric] Let_def)
  moreover have "map_option totalFloors (getDetailedFloorInfo records) =
       Some (if truthy_positive (aant_bwlg_pnd (hd records)) then to_number (aant_bwlg_pnd (hd records))
             else if present (hoogste_bwlg_pnd (hd records)) \<and> present (laagste_bwlg_pnd (hd records))
             then to_number (hoogste_bwlg_pnd (hd records)) - to_number (laagste_bwlg_pnd (hd records)) + 1
             else 9)"
    unfolding getDetailedFloorInfo_def Cons
    by (simp add: present_def Let_def)
  ultimately show ?thesis by simp
qed

theorem floor_count_resolution_witness:
  "getTotalFloors demo_records = 3 \<and>
   map_option totalFloors (getDetailedFloorInfo demo_records) = Some 3"
  using floor_count_resolution [of demo_records]
  by (simp add: demo_records_def spec_floor_count_def)

text \<open>
  C2 as stated fails: for two records on floors 0 and 1 without the other floor fields the
  priority of the specification gives 2 (the distinct floor indices), and
  \<^verbatim>\<open>generateFloorModels\<close> makes 9 floors.
\<close>

theorem floor_count_counterexample:
  "length (the (map_of (floorEntities (snd (generateFloorModels new_floor_generator (Some demo_feature)
       [rec_on_floor 0, rec_on_floor 1]))) ''0599100000668111'')) = 9 \<and>
   spec_floor_count [rec_on_floor 0, rec_on_floor 1] = 2"
proof -
  have info: "getDetailedFloorInfo [rec_on_floor 0, rec_on_floor 1] = Some \<lparr> totalFloors = 9, floorUnits = [1, 1, 0, 0, 0, 0, 0, 0, 0] \<rparr>"
    by (simp add: getDetailedFloorInfo_def rec_on_floor_def upt_rec)
  have "length (the (map_of (floorEntities (snd (generateFloorModels new_floor_generator (Some demo_feature)
       [rec_on_floor 0, rec_on_floor 1]))) ''0599100000668111'')) = 9"
    by (simp add: generateFloorModels_def demo_id demo_geo info new_floor_generator_def
      getBuildingPosition_def addDebugMarker_def removeFloorModels_def Let_def floor_entity_def
      addBuildingOutline_def
      createFloorEntityFromGeometry_def upto_rec1 split: prod.splits)
  then show ?thesis
    by (simp add: spec_floor_count_def rec_on_floor_def present_def distinct_floor_indices_def)
qed


subsection \<open>C4: the floor stack\<close>

lemma generateFloorModels_success:
  assumes "generateFloorModels fg (Some feature) properties = (True, fg')"
  shows "\<exists>buildingId geometry info.
           extractBuildingId (Some feature) = Some buildingId \<and>
           extractDetailedGeometry (Some feature) (getBuildingPosition fg buildingId) = Some geometry \<and>
           getDetailedFloorInfo properties = Some info \<and>
           1 \<le> totalFloors info \<and>
           activeBuilding fg' = Some buildingId \<and>
           map_of (floorEntities fg') buildingId =
             Some (map (floor_entity buildingId geometry (totalFloors info) properties)
                       [0 .. totalFloors info - 1])"
  using assms
  by (auto simp: generateFloorModels_def Let_def addBuildingOutline_def update_conv'
           split: option.splits if_splits prod.splits)

lemma floor_entity_position:
  "e_position (floor_entity buildingId geometry n properties i) =
     \<lparr> longitude = longitude (g_position geometry), latitude = latitude (g_position geometry),
       height = height (g_position geometry) - g_height geometry / 2
                + (real_of_int i + 1/2) * (g_height geometry / real_of_int n) \<rparr>"
  by (simp add: floor_entity_def Let_def createComplexShapeFloorEntity_def
      createFloorEntityFromGeometry_def algebra_simps)

text \<open>
  C4.  When \<^verbatim>\<open>generateFloorModels\<close> succeeds for a building of positive height, it stores
  one entity for each of the floorCount \<open>\<ge>\<close> 1 floors.  Entity i keeps the longitude and
  latitude of the anchor and has its centre at height
  anchor.height - buildingHeight / 2 + (i + 1/2) * floorHeight with
  floorHeight = buildingHeight / floorCount.  The ranges of one floor height around the
  centres start at anchor.height - buildingHeight / 2, end at
  anchor.height + buildingHeight / 2, and each ends where the next begins.  Every box is
  0.8 floor heights high, the fixed margin.
\<close>

theorem floor_stack_tiles_building_height:
  assumes gen: "generateFloorModels fg (Some feature) properties = (True, fg')"
      and bid: "extractBuildingId (Some feature) = Some buildingId"
      and geo: "extractDetailedGeometry (Some feature) (getBuildingPosition fg buildingId) = Some geometry"
      and inf: "getDetailedFloorInfo properties = Some info"
      and pos: "0 < g_height geometry"
  shows "\<exists>es. map_of (floorEntities fg') buildingId = Some es \<and>
           1 \<le> totalFloors info \<and> int (length es) = totalFloors info \<and>
           (\<forall>i < length es.
              e_position (es ! i) =
                \<lparr> longitude = longitude (g_position geometry),
                  latitude = latitude (g_position geometry),
                  height = height (g_position geometry) - g_height geometry / 2
                    + (real i + 1/2) * (g_height geometry / real_of_int (totalFloors info)) \<rparr> \<and>
              zLow (g_height geometry / real_of_int (totalFloors info)) (es ! i)
                < zHigh (g_height geometry / real_of_int (totalFloors info)) (es ! i) \<and>
              (case e_box (es ! i) of
                 Some b \<Rightarrow> b_height b = (g_height geometry / real_of_int (totalFloors info)) * 0.8
               | None \<Rightarrow> \<forall>p \<in> set (e_parts (es ! i)).
                          b_height p = (g_height geometry / real_of_int (totalFloors info)) * 0.8)) \<and>
           zLow (g_height geometry / real_of_int (totalFloors info)) (es ! 0)
             = height (g_position geometry) - g_height geometry / 2 \<and>
           zHigh (g_height geometry / real_of_int (totalFloors info)) (es ! (length es - 1))
             = height (g_position geometry) + g_height geometry / 2 \<and>
           (\<forall>i. Suc i < length es \<longrightarrow>
              zHigh (g_height geometry / real_of_int (totalFloors info)) (es ! i)
                = zLow (g_height geometry / real_of_int (totalFloors info)) (es ! Suc i))"
proof -
  let ?n = "totalFloors info"
  let ?H = "g_height geometry"
  let ?fh = "?H / real_of_int ?n"
  let ?es = "map (floor_entity buildingId geometry ?n properties) [0 .. ?n - 1]"
  from generateFloorModels_success [OF gen] bid geo inf
  have n1: "1 \<le> ?n" and stored: "map_of (floorEntities fg') buildingId = Some ?es"
    by auto
  have len: "int (length ?es) = ?n" using n1 by simp
  have nth: "?es ! i = floor_entity buildingId geometry ?n properties (int i)" if "i < length ?es" for i
    using that by simp
  have fhpos: "0 < ?fh" using pos n1 by simp
  have nn: "real_of_int ?n \<noteq> 0" using n1 by simp
  have each: "e_position (?es ! i) =
                \<lparr> longitude = longitude (g_position geometry),
                  latitude = latitude (g_position geometry),
                  height = height (g_position geometry) - ?H / 2 + (real i + 1/2) * ?fh \<rparr> \<and>
              zLow ?fh (?es ! i) < zHigh ?fh (?es ! i) \<and>
              (case e_box (?es ! i) of
                 Some b \<Rightarrow> b_height b = ?fh * 0.8
               | None \<Rightarrow> \<forall>p \<in> set (e_parts (?es ! i)). b_height p = ?fh * 0.8)"
    if "i < length ?es" for i
  proof -
    have "(case e_box (floor_entity buildingId geometry ?n properties (int i)) of
                 Some b \<Rightarrow> b_height b = ?fh * 0.8
               | None \<Rightarrow> \<forall>p \<in> set (e_parts (floor_entity buildingId geometry ?n properties (int i))).
                     b_height p = ?fh * 0.8)"
      by (simp add: floor_entity_def Let_def createComplexShapeFloorEntity_def
          createFloorEntityFromGeometry_def)
    then show ?thesis
      using fhpos by (simp only: nth [OF that] floor_entity_position zLow_def zHigh_def) simp
  qed
  have bottom: "zLow ?fh (?es ! 0) = height (g_position geometry) - ?H / 2"
  proof -
    have "0 < length ?es" using n1 by simp
    from nth [OF this] show ?thesis
      by (simp add: floor_entity_position zLow_def)
  qed
  have top: "zHigh ?fh (?es ! (length ?es - 1)) = height (g_position geometry) + ?H / 2"
  proof -
    have l: "length ?es - 1 < length ?es" using n1 by simp
    have i: "int (length ?es - 1) = ?n - 1" using n1 by simp
    have "(real_of_int (?n - 1) + 1/2) * ?fh + ?fh / 2 = ?H"
      using nn by (simp add: field_simps)
    then show ?thesis
      by (simp only: nth [OF l] i floor_entity_position zHigh_def) simp
  qed
  have adj: "zHigh ?fh (?es ! i) = zLow ?fh (?es ! Suc i)" if "Suc i < length ?es" for i
  proof -
    have l: "i < length ?es" using that by simp
    have "(real i + 1/2) * ?fh + ?fh / 2 = (real (Suc i) + 1/2) * ?fh - ?fh / 2"
      by (simp add: algebra_simps)
    then show ?thesis
      by (simp only: nth [OF l] nth [OF that] floor_entity_position zHigh_def zLow_def) simp
  qed
  from stored n1 len each bottom top adj show ?thesis by blast
qed

theorem floor_stack_witness:
  "fst (generateFloorModels new_floor_generator (Some demo_feature) demo_records) = True \<and>
   length (the (map_of (floorEntities (snd (generateFloorModels new_floor_generator (Some demo_feature) demo_records)))
      ''0599100000668111'')) = 3 \<and>
   zLow 10 (the (map_of (floorEntities (snd (generateFloorModels new_floor_generator (Some demo_feature) demo_records)))
      ''0599100000668111'') ! 0) = 5 \<and>
   zHigh 10 (the (map_of (floorEntities (snd (generateFloorModels new_floor_generator (Some demo_feature) demo_records)))
      ''0599100000668111'') ! 2) = 35"
proof -
  let ?r = "generateFloorModels new_floor_generator (Some demo_feature) demo_records"
  have gen: "?r = (True, snd ?r)"
    using demo_gen by (simp add: prod_eq_iff)
  have geo: "extractDetailedGeometry (Some demo_feature)
      (getBuildingPosition new_floor_generator ''0599100000668111'') =
    Some \<lparr> g_position = \<lparr> longitude = 1, latitude = 2, height = 20 \<rparr>, g_width = 32, g_length = 32,
           g_height = 30, g_isLShaped = False \<rparr>"
    by (simp add: demo_pos demo_geo)
  from floor_stack_tiles_building_height [OF gen demo_id geo demo_info]
  show ?thesis using demo_gen by auto
qed


subsection \<open>C7: floor colour\<close>

text \<open>
  C7 (as amended).  Floor 0 gets the ground colour (red, alpha 0.8); for two or more
  floors the top floor gets the top colour (blue, alpha 0.8); every floor strictly between
  gets a colour of saturation 0.8, lightness 0.6 and alpha 0.8 whose hue is one linear,
  not constant, function of index / (floorCount - 1), the same for every floor count.
\<close>

theorem getFloorColor_gradient:
  "getFloorColor 0 n = WithAlpha RED 0.8 \<and>
   (2 \<le> n \<longrightarrow> getFloorColor (n - 1) n = WithAlpha BLUE 0.8) \<and>
   (\<exists>a b. b \<noteq> 0 \<and> (\<forall>i m. 0 < i \<and> i < m - 1 \<longrightarrow>
      getFloorColor i m = FromHsl (a + b * (real_of_int i / real_of_int (m - 1))) 0.8 0.6 0.8))"
proof -
  have ground: "getFloorColor 0 n = WithAlpha RED 0.8"
    by (simp add: getFloorColor_def)
  have top: "getFloorColor (n - 1) n = WithAlpha BLUE 0.8" if "2 \<le> n"
    using that by (simp add: getFloorColor_def)
  have between: "getFloorColor i m
      = FromHsl (0.6 + (- 0.6) * (real_of_int i / real_of_int (m - 1))) 0.8 0.6 0.8"
    if "0 < i \<and> i < m - 1" for i m
  proof -
    have "(0.6::real) - (x * 0.6) = 0.6 + (- 0.6) * x" for x by simp
    with that show ?thesis by (simp only: getFloorColor_def Let_def max_def) simp
  qed
  have slope: "(- 0.6 :: real) \<noteq> 0" by simp
  from between slope
  have "\<exists>a b. b \<noteq> (0::real) \<and> (\<forall>i m. 0 < i \<and> i < m - 1 \<longrightarrow>
      getFloorColor i m = FromHsl (a + b * (real_of_int i / real_of_int (m - 1))) 0.8 0.6 0.8)"
    by blast
  with ground top show ?thesis by blast
qed

theorem getFloorColor_gradient_witness:
  "getFloorColor 0 3 = WithAlpha RED 0.8 \<and> getFloorColor (3 - 1) 3 = WithAlpha BLUE 0.8 \<and>
   (\<exists>h. getFloorColor 1 3 = FromHsl h 0.8 0.6 0.8)"
proof -
  from getFloorColor_gradient [of 3]
  obtain a b where g: "getFloorColor 0 3 = WithAlpha RED 0.8"
    and t: "getFloorColor (3 - 1) 3 = WithAlpha BLUE 0.8"
    and m: "\<forall>i m. 0 < i \<and> i < m - 1 \<longrightarrow>
      getFloorColor i m = FromHsl (a + b * (real_of_int i / real_of_int (m - 1))) 0.8 0.6 0.8"
    by auto
  from m have "getFloorColor 1 3 = FromHsl (a + b * (real_of_int 1 / real_of_int (3 - 1))) 0.8 0.6 0.8"
    by simp
  with g t show ?thesis by blast
qed

text \<open>
  C7 as stated fails twice.  With a single floor, that floor is the top floor (index
  floorCount - 1 = 0) and gets the ground colour, not the top colour.  With eleven floors,
  floor 1 gets the hue 27/50, while the interpolation between the hue of the ground colour
  and the hue of the top colour at 1/10 is 1/15.
\<close>

theorem getFloorColor_counterexample:
  "getFloorColor (1 - 1) 1 = WithAlpha RED 0.8 \<and> getFloorColor (1 - 1) 1 \<noteq> WithAlpha BLUE 0.8 \<and>
   color_hue (getFloorColor 1 11) = Some (27 / 50) \<and>
   spec_interpolated_hue (getFloorColor 0 11) (getFloorColor (11 - 1) 11) (1 / (11 - 1)) = Some (1 / 15)"
  by (simp add: getFloorColor_def spec_interpolated_hue_def)


subsection \<open>C3: strategies of the feature identifier\<close>

lemma scan_names_find:
  "scan_names f ns =
     map_option (\<lambda>n. js_String (getProperty f n))
        (List.find (\<lambda>n. hasProperty f n \<and> exact_string (getProperty f n)) ns)"
  by (induction ns) auto

lemma scan_batch_find:
  "scan_batch table ns =
     map_option (\<lambda>n. js_String (table_value table n))
        (List.find (\<lambda>n. name_has_id n \<and> exact_string (table_value table n)) ns)"
  by (induction ns) (auto simp: table_value_def)

lemma exact_string_exact16: "exact_string v \<Longrightarrow> exact16 (js_String v)"
  by (cases v) auto

lemma match16_exact16: "match16 s = Some m \<Longrightarrow> exact16 m"
  by (induction s) (auto simp: exact16_def split: if_splits)

lemma scan_names_exact16: "scan_names f ns = Some b \<Longrightarrow> exact16 b"
  by (induction ns) (auto simp: exact_string_exact16 split: if_splits)

lemma scan_batch_exact16: "scan_batch table ns = Some b \<Longrightarrow> exact16 b"
  by (induction ns) (auto simp: exact_string_exact16 split: if_splits)

text \<open>
  C3 (as amended).  \<^verbatim>\<open>getFeatureBuildingId\<close> tries three strategies in a fixed order and
  the first success wins: (1) the first canonical name, in the order of the list, that is
  a property whose value is a string of exactly sixteen digits; (2) the leftmost run of
  sixteen digits in the text of the \<^verbatim>\<open>gml:id\<close> property; (3) the first name of the batch
  table that contains "id" (in any case) and whose value is a string of exactly sixteen
  digits.  It returns null when these three are exhausted, and every id it returns is a
  string of sixteen digits.
\<close>

theorem feature_identifier_strategies:
  "getFeatureBuildingId f =
     (case List.find (\<lambda>n. hasProperty f n \<and> exact_string (getProperty f n)) canonical_names of
        Some n \<Rightarrow> Some (js_String (getProperty f n))
      | None \<Rightarrow>
          (case (if hasProperty f ''gml:id'' then match16 (js_String (getProperty f ''gml:id'')) else None) of
             Some m \<Rightarrow> Some m
           | None \<Rightarrow>
               (case Option.bind (f_content f) c_batchTable of
                  None \<Rightarrow> None
                | Some table \<Rightarrow>
                    (case List.find (\<lambda>n. name_has_id n \<and> exact_string (table_value table n)) (map fst table) of
                       Some n \<Rightarrow> Some (js_String (table_value table n))
                     | None \<Rightarrow> None)))) \<and>
   (\<forall>b. getFeatureBuildingId f = Some b \<longrightarrow> exact16 b)"
proof -
  have shape: "getFeatureBuildingId f =
     (case List.find (\<lambda>n. hasProperty f n \<and> exact_string (getProperty f n)) canonical_names of
        Some n \<Rightarrow> Some (js_String (getProperty f n))
      | None \<Rightarrow>
          (case (if hasProperty f ''gml:id'' then match16 (js_String (getProperty f ''gml:id'')) else None) of
             Some m \<Rightarrow> Some m
           | None \<Rightarrow>
               (case Option.bind (f_content f) c_batchTable of
                  None \<Rightarrow> None
                | Some table \<Rightarrow>
                    (case List.find (\<lambda>n. name_has_id n \<and> exact_string (table_value table n)) (map fst table) of
                       Some n \<Rightarrow> Some (js_String (table_value table n))
                     | None \<Rightarrow> None))))"
    unfolding getFeatureBuildingId_def gml_id_match_def extractBuildingIdFromFeature_def
      scan_names_find scan_batch_find
    by (simp split: option.splits)
  have digits: "exact16 b" if "getFeatureBuildingId f = Some b" for b
    using that
    by (auto simp: getFeatureBuildingId_def gml_id_match_def extractBuildingIdFromFeature_def
        split: option.splits if_splits
        dest: scan_names_exact16 match16_exact16 scan_batch_exact16)
  from shape digits show ?thesis by blast
qed

theorem feature_identifier_witness:
  "getFeatureBuildingId pandid_feature = Some ''0599100000668111'' \<and> exact16 ''0599100000668111''"
  using feature_identifier_strategies [of pandid_feature] pandid_id by simp

text \<open>
  C3 as stated fails: there is no fourth strategy.  For a feature whose only property value
  embeds sixteen digits the identifier returns null, while a scan of every property value
  for an embedded run of sixteen digits (the scan of the colour function) finds the id.
\<close>

theorem feature_identifier_no_fallback_counterexample:
  "getFeatureBuildingId embedded_feature = None \<and>
   scan_values (map (getProperty embedded_feature) (getPropertyNames embedded_feature))
     = Some ''0599100000668111''"
  by (simp add: getFeatureBuildingId_def canonical_names_def embedded_feature_def hasProperty_def
      getProperty_def getPropertyNames_def exact16_def is_digit_def gml_id_match_def
      extractBuildingIdFromFeature_def)


subsection \<open>C8: membership before the set is loaded\<close>

lemma scan_values_nonempty: "scan_values vs = Some b \<Longrightarrow> b \<noteq> []"
  by (induction vs) (auto simp: exact16_def split: if_splits option.splits dest!: match16_exact16)

text \<open>
  C8 (as amended).  While the set of building ids has not been loaded, the membership test
  \<^verbatim>\<open>hasBuildingId\<close> answers true for every id it is asked about.  The styling does not
  classify before loading: \<^verbatim>\<open>applyBuildingFilter\<close> installs no colour function; and
  its colour function asks the membership test only for a feature that has a value of
  sixteen digits, so that against a loader that has not loaded it gives the member colour
  to exactly those features and the non-member colour to every other.
\<close>

theorem not_loaded_membership:
  "\<not> loaded l \<Longrightarrow>
     hasBuildingId l buildingId \<and>
     (buildingDataLoader sm = Some l \<longrightarrow> applyBuildingFilter sm = None) \<and>
     evaluateColor l feature =
       (if scan_values (map (getProperty feature) (getPropertyNames feature)) = None
        then notInDatasetColor else inDatasetColor)"
proof -
  assume n: "\<not> loaded l"
  from n have asked: "hasBuildingId l buildingId" by (simp add: hasBuildingId_def)
  from n have none: "applyBuildingFilter sm = None" if "buildingDataLoader sm = Some l"
    using that by (simp add: applyBuildingFilter_def)
  have col: "evaluateColor l feature =
       (if scan_values (map (getProperty feature) (getPropertyNames feature)) = None
        then notInDatasetColor else inDatasetColor)"
    using n scan_values_nonempty
    by (auto simp: evaluateColor_def hasBuildingId_def split: option.splits)
  from asked none col show ?thesis by blast
qed

theorem not_loaded_membership_witness:
  "\<not> loaded unloaded_loader \<and>
   hasBuildingId unloaded_loader (Some ''0599100000668111'') \<and>
   hasBuildingId unloaded_loader None \<and>
   applyBuildingFilter unloaded_style_manager = None \<and>
   evaluateColor unloaded_loader pandid_feature = inDatasetColor"
proof -
  have n: "\<not> loaded unloaded_loader"
    by (simp add: unloaded_loader_def loadBuildingIdsFromFile_def new_building_data_loader_def)
  have s: "scan_values (map (getProperty pandid_feature) (getPropertyNames pandid_feature)) \<noteq> None"
    by (simp add: pandid_feature_def getProperty_def getPropertyNames_def exact16_def is_digit_def)
  have sm: "buildingDataLoader unloaded_style_manager = Some unloaded_loader"
    by (simp add: unloaded_style_manager_def)
  from not_loaded_membership [OF n, of "Some ''0599100000668111''" unloaded_style_manager pandid_feature]
       not_loaded_membership [OF n, of None unloaded_style_manager pandid_feature] n s sm
  show ?thesis by (simp del: not_None_eq)
qed

text \<open>
  C8 as stated fails.  With a loader that has not loaded, the style manager installs no
  colour function and its membership query \<^verbatim>\<open>hasBuildingData\<close> answers false; a building
  that is picked and then deselected by a click on empty space is given the non-member
  colour (gray), although it carries an id.
\<close>

theorem not_loaded_non_member_counterexample:
  "loaded unloaded_loader = False \<and>
   applyBuildingFilter unloaded_style_manager = None \<and>
   hasBuildingData unloaded_style_manager (Some ''0599100000668111'') = False \<and>
   featureColor (run (new_selector (Some unloaded_style_manager)) deselect_trace) pandid_feature
     = Some (WithAlpha GRAY 0.5)"
proof -
  have n: "loaded unloaded_loader = False"
    by (simp add: unloaded_loader_def loadBuildingIdsFromFile_def new_building_data_loader_def)
  have f: "applyBuildingFilter unloaded_style_manager = None"
    using n by (simp add: applyBuildingFilter_def unloaded_style_manager_def)
  have d: "hasBuildingData unloaded_style_manager (Some b) = False" for b
    using n by (simp add: hasBuildingData_def unloaded_style_manager_def)
  have scan: "scan_string_values (map (getProperty pandid_feature) (getPropertyNames pandid_feature))
      = Some ''0599100000668111''"
    by (simp add: pandid_feature_def getProperty_def getPropertyNames_def exact16_def is_digit_def)
  have s1: "step (new_selector (Some unloaded_style_manager)) (LeftClick (PickTile pandid_feature) demo_env)
      = (new_selector (Some unloaded_style_manager))\<lparr> selectedFeature := Some pandid_feature,
           featureColor := [pandid_feature \<mapsto> WithAlpha YELLOW 0.8],
           currentBuildingId := Some ''0599100000668111'',
           pending := [ClickFetch ''0599100000668111''] \<rparr>"
    by (simp add: onLeftClick_def clearSelection_def selectFeature_def pandid_id
        getPropertiesByPandId_start_def new_selector_def new_data_service_def)
  have "featureColor (run (new_selector (Some unloaded_style_manager)) deselect_trace) pandid_feature
     = Some (WithAlpha GRAY 0.5)"
    unfolding run_def deselect_trace_def foldl.simps s1
    by (simp add: onLeftClick_def clearSelection_def scan d new_selector_def)
  with n f d show ?thesis by simp
qed


subsection \<open>C1: results of pending fetches\<close>

lemma generateFloors_frame:
  "infoPanel (snd (generateFloors s ps e)) = infoPanel s \<and>
   buildingsWithInfo (snd (generateFloors s ps e)) = buildingsWithInfo s \<and>
   currentBuildingId (snd (generateFloors s ps e)) = currentBuildingId s \<and>
   selectedFeature (snd (generateFloors s ps e)) = selectedFeature s \<and>
   showFloorsForSelectedBuilding (snd (generateFloors s ps e)) = showFloorsForSelectedBuilding s"
  by (simp add: generateFloors_def split: prod.splits option.splits)

lemma markBuildingHasInfo_frame:
  "infoPanel (markBuildingHasInfo s b) = infoPanel s \<and>
   showFloorsForSelectedBuilding (markBuildingHasInfo s b) = showFloorsForSelectedBuilding s \<and>
   buildingsWithInfo (markBuildingHasInfo s b) = (if b = [] then buildingsWithInfo s else insert b (buildingsWithInfo s))"
  by (simp add: markBuildingHasInfo_def)

lemma properties_received_panel:
  assumes "ps \<noteq> []"
  shows "p_content (infoPanel (properties_received s ps e)) = Properties ps \<and>
         p_visible (infoPanel (properties_received s ps e)) \<and>
         p_toggleButton (infoPanel (properties_received s ps e)) = Some (showFloorsForSelectedBuilding s) \<and>
         buildingsWithInfo (properties_received s ps e) =
           (case currentBuildingId s of
              Some b \<Rightarrow> if b = [] then buildingsWithInfo s else insert b (buildingsWithInfo s)
            | None \<Rightarrow> buildingsWithInfo s)"
  using assms
  by (cases "currentBuildingId s")
     (simp_all add: properties_received_def Let_def generateFloors_frame markBuildingHasInfo_frame
        displayProperties_def addFloorToggleButton_def)

text \<open>
  C1 (as amended).  There is no selection token.  When the response of a pending fetch of
  the click handler arrives with a non-empty list of records, the result is applied
  whatever has been picked in between: the panel shows these records, and the building id
  that is current at that moment is marked as having information.
\<close>

theorem fetch_result_applied_when_it_resolves:
  assumes "k < length (pending s)"
      and "pending s ! k = ClickFetch pandId"
      and "response_ok status"
      and "properties \<noteq> []"
  shows "p_content (infoPanel (step s (FetchDone k (Response status (JsonArray properties)) e)))
           = Properties properties \<and>
         p_visible (infoPanel (step s (FetchDone k (Response status (JsonArray properties)) e))) \<and>
         buildingsWithInfo (step s (FetchDone k (Response status (JsonArray properties)) e)) =
           (case currentBuildingId s of
              Some b \<Rightarrow> if b = [] then buildingsWithInfo s else insert b (buildingsWithInfo s)
            | None \<Rightarrow> buildingsWithInfo s)"
proof -
  let ?s1 = "s\<lparr> dataService := (dataService s)\<lparr> cache := (cache (dataService s))(pandId \<mapsto> properties) \<rparr>,
               pending := remove_nth k (pending s) \<rparr>"
  have "step s (FetchDone k (Response status (JsonArray properties)) e)
      = properties_received ?s1 properties e"
    using assms by (simp add: fetch_done_def getPropertiesByPandId_finish_def)
  then show ?thesis
    using properties_received_panel [OF assms(4), of ?s1 e]
    by (cases "currentBuildingId s") simp_all
qed

theorem fetch_result_applied_witness:
  "pending (run (new_selector None) [LeftClick (PickTile demo_feature) demo_env,
                            LeftClick (PickTile demo_feature_b) demo_env]) ! 0
     = ClickFetch ''0599100000668111'' \<and>
   p_content (infoPanel (step (run (new_selector None) [LeftClick (PickTile demo_feature) demo_env,
                            LeftClick (PickTile demo_feature_b) demo_env])
           (FetchDone 0 (Response 200 (JsonArray demo_records)) demo_env))) = Properties demo_records"
proof -
  let ?s = "run (new_selector None) [LeftClick (PickTile demo_feature) demo_env,
                            LeftClick (PickTile demo_feature_b) demo_env]"
  have k: "0 < length (pending ?s)" by (simp add: click_a_b)
  have p: "pending ?s ! 0 = ClickFetch ''0599100000668111''" by (simp add: click_a_b)
  have ok: "response_ok 200" by (simp add: response_ok_def)
  have ne: "demo_records \<noteq> []" by (simp add: demo_records_def)
  from fetch_result_applied_when_it_resolves [OF k p ok ne, of demo_env] p
  show ?thesis by blast
qed

text \<open>
  C1 as stated fails (Scenario E): building X is picked, then building Y while the fetch for
  X is pending; when the response for X arrives, the panel shows the records of X, with Y
  selected and current, and Y is marked as having information.
\<close>

theorem stale_fetch_displayed_counterexample:
  "p_content (infoPanel (run (new_selector None) stale_trace)) = Properties demo_records \<and>
   hd demo_records = \<lparr> pandid = ''0599100000668111'', bwlg_vb0 = Num 0, laagste_bwlg_pnd = Num 0,
        hoogste_bwlg_pnd = Num 2, aant_bwlg_pnd = Num 3 \<rparr> \<and>
   currentBuildingId (run (new_selector None) stale_trace) = Some ''0599100000123456'' \<and>
   selectedFeature (run (new_selector None) stale_trace) = Some demo_feature_b \<and>
   buildingsWithInfo (run (new_selector None) stale_trace) = {''0599100000123456''}"
proof -
  have "run (new_selector None) stale_trace =
      step (run (new_selector None) [LeftClick (PickTile demo_feature) demo_env,
                            LeftClick (PickTile demo_feature_b) demo_env])
           (FetchDone 0 (Response 200 (JsonArray demo_records)) demo_env)"
    by (simp add: run_def stale_trace_def)
  then show ?thesis
    unfolding click_a_b
    by (simp add: fetch_done_def getPropertiesByPandId_finish_def response_ok_def
      remove_nth_def new_selector_def properties_received_def markBuildingHasInfo_def
      displayProperties_def addFloorToggleButton_def demo_records_def new_info_panel_def)
qed


subsection \<open>C5: floors of one building at a time\<close>

lemma e_id_floor_entity: "e_id (floor_entity b g n ps i) = FloorEntity b i"
  by (simp add: floor_entity_def Let_def createComplexShapeFloorEntity_def
      createFloorEntityFromGeometry_def)

lemma e_show_floor_entity: "e_show (floor_entity b g n ps i)"
  by (simp add: floor_entity_def Let_def createComplexShapeFloorEntity_def
      createFloorEntityFromGeometry_def)

lemma add_entities_fresh:
  "distinct (map e_id es) \<Longrightarrow> set (map e_id es) \<inter> v = {} \<Longrightarrow>
   add_entities es v = (True, v \<union> set (map e_id es))"
proof (induction es arbitrary: v)
  case Nil
  then show ?case by simp
next
  case (Cons e es)
  from Cons.prems have fresh: "e_id e \<notin> v" by auto
  from Cons.prems have "distinct (map e_id es)" "set (map e_id es) \<inter> insert (e_id e) v = {}"
    by auto
  from Cons.IH [OF this] fresh show ?case by auto
qed

lemma floor_ids:
  "map e_id (map (floor_entity b g n ps) is) = map (FloorEntity b) is"
  by (simp add: e_id_floor_entity)

lemma generateFloorModels_fresh:
  assumes bid: "extractBuildingId f = Some b"
      and geo: "extractDetailedGeometry f (getBuildingPosition fg b) = Some g"
      and inf: "getDetailedFloorInfo ps = Some info"
      and n1: "1 \<le> totalFloors info"
      and untracked: "map_of (floorEntities fg) b = None"
      and fresh: "\<forall>n. FloorEntity b n \<notin> viewer fg"
  shows "generateFloorModels fg f ps =
           (True, fg\<lparr> viewer := insert (BuildingOutline b)
                              (insert (DebugMarker (''Building '' @ b)) (viewer fg)
                                 \<union> FloorEntity b ` {0 .. totalFloors info - 1}),
                     floorEntities :=
                       AList.update b (map (floor_entity b g (totalFloors info) ps) [0 .. totalFloors info - 1])
                         (floorEntities fg),
                     activeBuilding := Some b \<rparr>)"
proof -
  let ?es = "map (floor_entity b g (totalFloors info) ps) [0 .. totalFloors info - 1]"
  let ?v1 = "insert (DebugMarker (''Building '' @ b)) (viewer fg)"
  have d: "distinct (map e_id ?es)"
    unfolding floor_ids by (simp add: distinct_map inj_on_def)
  have i: "set (map e_id ?es) \<inter> ?v1 = {}"
    unfolding floor_ids using fresh by auto
  have add: "add_entities ?es ?v1 = (True, ?v1 \<union> set (map e_id ?es))"
    by (rule add_entities_fresh [OF d i])
  have ids: "set (map e_id ?es) = FloorEntity b ` {0 .. totalFloors info - 1}"
    unfolding floor_ids by simp
  have v1: "insert (DebugMarker (''Building '' @ b)) (viewer fg - {DebugMarker (''Building '' @ b)}) = ?v1"
    by auto
  have ids': "set (map (e_id \<circ> floor_entity b g (totalFloors info) ps) [0 .. totalFloors info - 1])
      = FloorEntity b ` {0 .. totalFloors info - 1}"
    by (auto simp: e_id_floor_entity)
  show ?thesis
    using bid geo inf n1 untracked
    by (simp add: generateFloorModels_def addDebugMarker_def removeFloorModels_def v1 add ids
        addBuildingOutline_def insert_absorb Let_def ids' del: set_map append_Cons append_Nil)
qed

lemma list_ex_floors: "1 \<le> n \<Longrightarrow> list_ex e_show (map (floor_entity b g n ps) [0 .. n - 1])"
proof -
  assume "1 \<le> n"
  then have "(0::int) \<in> set [0 .. n - 1]" by simp
  then show ?thesis
    unfolding list_ex_iff using e_show_floor_entity by fastforce
qed

text \<open>
  C5 fails on the code.  Floors are shown for building X by the toggle; then building Y is
  picked.  The click handler generates the floors of Y through \<^verbatim>\<open>generateFloorModels\<close>,
  which removes the floor models of Y only, so the map holds shown floor entities of X and
  of Y.
\<close>

theorem two_buildings_shown:
  "shown_buildings (floorGenerator (run (new_selector None) two_buildings_trace))
     = [''0599100000668111'', ''0599100000123456'']"
proof -
  let ?X = "''0599100000668111''"
  let ?Y = "''0599100000123456''"
  let ?gA = "\<lparr> g_position = picked_position, g_width = 32, g_length = 32, g_height = 30, g_isLShaped = False \<rparr>"
  let ?gB = "\<lparr> g_position = \<lparr> longitude = 3, latitude = 4, height = 10 \<rparr>, g_width = 32, g_length = 32, g_height = 20, g_isLShaped = False \<rparr>"
  let ?esA = "map (floor_entity ?X ?gA 3 demo_records) [0 .. 3 - 1]"
  let ?esB = "map (floor_entity ?Y ?gB 2 demo_records_b) [0 .. 2 - 1]"
  define S1 where "S1 = step (new_selector None) (LeftClick (PickTile demo_feature) demo_env)"
  define S2 where "S2 = step S1 (FetchDone 0 (Response 200 (JsonArray demo_records)) demo_env)"
  define S3 where "S3 = step S2 (ToggleClick demo_env)"
  define S4 where "S4 = step S3 (TimerDone 0)"
  define S5 where "S5 = step S4 (LeftClick (PickTile demo_feature_b) demo_env)"
  define S6 where "S6 = step S5 (FetchDone 0 (Response 200 (JsonArray demo_records_b)) demo_env)"
  define fg3 where "fg3 = new_floor_generator\<lparr> buildingPositions :=
      [?X \<mapsto> \<lparr> pi_position = picked_position, pi_isManual = False \<rparr>] \<rparr>"
  define fg4 where "fg4 = fg3\<lparr> viewer := insert (BuildingOutline ?X)
                              (insert (DebugMarker (''Building '' @ ?X)) (viewer fg3)
                                 \<union> FloorEntity ?X ` {0 .. 3 - 1}),
                     floorEntities := AList.update ?X ?esA (floorEntities fg3),
                     activeBuilding := Some ?X \<rparr>"
  define fg6 where "fg6 = fg4\<lparr> viewer := insert (BuildingOutline ?Y)
                              (insert (DebugMarker (''Building '' @ ?Y)) (viewer fg4)
                                 \<union> FloorEntity ?Y ` {0 .. 2 - 1}),
                     floorEntities := AList.update ?Y ?esB (floorEntities fg4),
                     activeBuilding := Some ?Y \<rparr>"
  have s1: "S1 = (new_selector None)\<lparr> selectedFeature := Some demo_feature,
       featureColor := [demo_feature \<mapsto> WithAlpha YELLOW 0.8],
       currentBuildingId := Some ?X, pending := [ClickFetch ?X] \<rparr>"
    by (simp add: S1_def onLeftClick_def clearSelection_def selectFeature_def pand_a
        getPropertiesByPandId_start_def new_selector_def new_data_service_def)
  have s2: "S2 = S1\<lparr> dataService := \<lparr> cache = [?X \<mapsto> demo_records], databaseBuildingIds = None \<rparr>,
       pending := [], buildingsWithInfo := {?X},
       infoPanel := \<lparr> p_visible = True, p_content = Properties demo_records, p_toggleButton = Some False \<rparr> \<rparr>"
    by (simp add: S2_def s1 fetch_done_def getPropertiesByPandId_finish_def response_ok_def
        remove_nth_def new_selector_def properties_received_def markBuildingHasInfo_def
        displayProperties_def addFloorToggleButton_def demo_records_def new_info_panel_def
        new_data_service_def)
  have s3: "S3 = S2\<lparr> showFloorsForSelectedBuilding := True,
       featureColor := [demo_feature \<mapsto> WithAlpha YELLOW 0.9],
       floorGenerator := fg3, pending := [ToggleTimer demo_records],
       infoPanel := \<lparr> p_visible = True, p_content = Properties demo_records, p_toggleButton = Some True \<rparr> \<rparr>"
    by (simp add: S3_def s2 s1 fg3_def toggleFloorModels_def hideFloorGenerationError_def
        new_selector_def removeAllFloorModels_def new_floor_generator_def earthPosition_def
        demo_env_alt getPropertiesByPandId_start_def toggle_properties_received_def
        setBuildingPosition_def updateFloorToggleButton_def demo_records_def)
  have g4: "generateFloorModels fg3 (Some demo_feature) demo_records = (True, fg4)"
    unfolding fg4_def
    using generateFloorModels_fresh [of "Some demo_feature" ?X fg3 ?gA demo_records
        "\<lparr> totalFloors = 3, floorUnits = [1, 0, 0] \<rparr>"]
    by (simp add: demo_id demo_geo_stored demo_info fg3_def getBuildingPosition_def
        new_floor_generator_def del: append_Cons append_Nil)
  have s4: "S4 = S3\<lparr> pending := [], floorGenerator := fg4 \<rparr>"
    by (simp add: S4_def s3 s2 s1 timer_done_def remove_nth_def toggle_timer_def g4 new_selector_def)
  have s5: "S5 = S4\<lparr> selectedFeature := Some demo_feature_b,
       featureColor := [demo_feature \<mapsto> WithAlpha WHITE 0.7, demo_feature_b \<mapsto> WithAlpha YELLOW 0.8],
       currentBuildingId := Some ?Y, pending := [ClickFetch ?Y] \<rparr>"
    by (simp add: S5_def s4 s3 s2 s1 onLeftClick_def clearSelection_def selectFeature_def pand_b scan_a
        getPropertiesByPandId_start_def new_selector_def)
  have g6: "generateFloorModels fg4 (Some demo_feature_b) demo_records_b = (True, fg6)"
    unfolding fg6_def
    using generateFloorModels_fresh [of "Some demo_feature_b" ?Y fg4 ?gB demo_records_b
        "\<lparr> totalFloors = 2, floorUnits = [1, 0] \<rparr>"]
    by (simp add: id_b demo_geo_b demo_info_b fg4_def fg3_def getBuildingPosition_def
        new_floor_generator_def image_iff del: append_Cons append_Nil)
  have ne: "demo_records_b \<noteq> []" by (simp add: demo_records_b_def)
  have s6: "floorGenerator S6 = fg6"
    by (simp add: S6_def s5 s4 s3 s2 s1 fetch_done_def getPropertiesByPandId_finish_def response_ok_def
        remove_nth_def new_selector_def properties_received_def markBuildingHasInfo_def
        displayProperties_def addFloorToggleButton_def ne Let_def
        generateFloors_def g6)
  have run: "run (new_selector None) two_buildings_trace = S6"
    by (simp add: run_def two_buildings_trace_def S6_def S5_def S4_def S3_def S2_def S1_def)
  have "shown_buildings fg6 = [?X, ?Y]"
    using list_ex_floors [of 3 ?X ?gA demo_records] list_ex_floors [of 2 ?Y ?gB demo_records_b]
    by (simp add: shown_buildings_def fg6_def fg4_def fg3_def new_floor_generator_def)
  with run s6 show ?thesis by simp
qed


subsection \<open>C6: the cache of building positions\<close>

text \<open>
  C6 (as amended).  The cache of the generator holds positions.  Generating floors, and
  with it the resolution of the geometry down to the constant default of width 40, length
  40 and height 45, reads the cache and never writes it.  \<^verbatim>\<open>setBuildingPosition\<close>
  overwrites the entry of its building with the position it is given, whatever was stored
  before, and leaves the other entries.
\<close>

theorem position_cache_written_unconditionally:
  "buildingPositions (snd (generateFloorModels fg f ps)) = buildingPositions fg \<and>
   extractDetailedGeometry None (Some stored) =
     Some \<lparr> g_position = pi_position stored, g_width = 40, g_length = 40, g_height = 45,
            g_isLShaped = False \<rparr> \<and>
   getBuildingPosition (setBuildingPosition fg b p) b = Some p \<and>
   (b' \<noteq> b \<longrightarrow> getBuildingPosition (setBuildingPosition fg b p) b' = getBuildingPosition fg b')"
proof -
  have "buildingPositions (snd (generateFloorModels fg f ps)) = buildingPositions fg"
    by (auto simp: generateFloorModels_def addDebugMarker_def removeFloorModels_def
        addBuildingOutline_def Let_def split: option.splits prod.splits if_splits)
  then show ?thesis
    by (simp add: getBuildingPosition_def setBuildingPosition_def extractDetailedGeometry_def
        default_geometry_def)
qed

theorem position_cache_witness:
  "getBuildingPosition
     (setBuildingPosition
        (setBuildingPosition new_floor_generator ''0599100000668111''
           \<lparr> pi_position = picked_position, pi_isManual = False \<rparr>)
        ''0599100000123456'' \<lparr> pi_position = rotterdam_default, pi_isManual = True \<rparr>)
     ''0599100000668111''
   = Some \<lparr> pi_position = picked_position, pi_isManual = False \<rparr>"
proof -
  have ne: "''0599100000668111'' \<noteq> ''0599100000123456''" by simp
  from position_cache_written_unconditionally
    [of "setBuildingPosition new_floor_generator ''0599100000668111''
           \<lparr> pi_position = picked_position, pi_isManual = False \<rparr>" None "[]"
        "\<lparr> pi_position = picked_position, pi_isManual = False \<rparr>"
        "''0599100000123456''" "\<lparr> pi_position = rotterdam_default, pi_isManual = True \<rparr>"
        "''0599100000668111''"]
       position_cache_written_unconditionally
    [of new_floor_generator None "[]" "\<lparr> pi_position = picked_position, pi_isManual = False \<rparr>"
        "''0599100000668111''" "\<lparr> pi_position = picked_position, pi_isManual = False \<rparr>"
        "''0599100000668111''"] ne
  show ?thesis by simp
qed


text \<open>
  C6 as stated fails: a position taken from the scene under the picked building is cached
  by the toggle; after a failed generation the retry overwrites it with the default
  position in Rotterdam.
\<close>

theorem retry_overwrites_cached_position_counterexample:
  "getBuildingPosition (floorGenerator (run (new_selector None) retry_trace)) ''0599100000668111''
     = Some \<lparr> pi_position = picked_position, pi_isManual = False \<rparr> \<and>
   getBuildingPosition (floorGenerator (run (new_selector None) (retry_trace @ [RetryClick])))
       ''0599100000668111''
     = Some \<lparr> pi_position = rotterdam_default, pi_isManual = True \<rparr> \<and>
   picked_position \<noteq> rotterdam_default"
proof -
  have after: "run (new_selector None) (retry_trace @ [RetryClick])
      = step (run (new_selector None) retry_trace) RetryClick"
    by (simp add: run_def)
  have known: "getKnownBuildingPosition (Some ''0599100000668111'') = rotterdam_default"
    by (simp add: getKnownBuildingPosition_def knownBuildings_def)
  show ?thesis
    unfolding after retry_trace_state
    by (simp add: getBuildingPosition_def retryFloorGeneration_def hideFloorGenerationError_def
        new_selector_def known setBuildingPosition_def removeAllFloorModels_def
        new_floor_generator_def getPropertiesByPandId_start_def retry_properties_received_def
        demo_records_def picked_position_def rotterdam_default_def Let_def)
qed


subsection \<open>C9: setFloorsVisible is idempotent\<close>

lemma set_entity_show_idem:
  "set_entity_show v b (set_entity_show v b e) = set_entity_show v b e"
  by (simp add: set_entity_show_def)

lemma forget_set_entity_show: "forget_show (set_entity_show v b e) = forget_show e"
  by (simp add: set_entity_show_def forget_show_def)

lemma set_entity_show_held:
  "e_id e \<in> v \<Longrightarrow>
     e_show (set_entity_show v visible e) = visible \<and>
     e_children (set_entity_show v visible e) = map (\<lambda>child. visible) (e_children e)"
  by (simp add: set_entity_show_def)

lemma set_entity_show_not_held: "e_id e \<notin> v \<Longrightarrow> set_entity_show v visible e = e"
  by (simp add: set_entity_show_def)

text \<open>
  C9.  \<^verbatim>\<open>setFloorsVisible\<close> sets the show flag of the stored floor entities of the
  building (those that the viewer holds, and their children) to the value it is given,
  and touches nothing else: the keys of the entity map, the viewer, the entries of the
  other buildings and everything of an entity but its visibility flags stay as they are,
  so nothing is created, removed or computed again.  Calling it a second time with the
  same arguments returns the same value and leaves the generator as the first call left
  it.
\<close>

theorem setFloorsVisible_idempotent:
  "setFloorsVisible (snd (setFloorsVisible fg buildingId visible)) buildingId visible
     = setFloorsVisible fg buildingId visible \<and>
   map fst (floorEntities (snd (setFloorsVisible fg buildingId visible))) = map fst (floorEntities fg) \<and>
   map_option (map forget_show) (map_of (floorEntities (snd (setFloorsVisible fg buildingId visible))) b)
     = map_option (map forget_show) (map_of (floorEntities fg) b) \<and>
   viewer (snd (setFloorsVisible fg buildingId visible)) = viewer fg \<and>
   (\<forall>es. map_of (floorEntities fg) buildingId = Some es \<and> es \<noteq> [] \<longrightarrow>
      fst (setFloorsVisible fg buildingId visible) \<and>
      (\<exists>es'. map_of (floorEntities (snd (setFloorsVisible fg buildingId visible))) buildingId = Some es' \<and>
         length es' = length es \<and>
         (\<forall>i < length es.
            (e_id (es ! i) \<in> viewer fg \<longrightarrow>
               e_show (es' ! i) = visible \<and>
               e_children (es' ! i) = map (\<lambda>child. visible) (e_children (es ! i))) \<and>
            (e_id (es ! i) \<notin> viewer fg \<longrightarrow> es' ! i = es ! i)))) \<and>
   (b \<noteq> buildingId \<longrightarrow>
      map_of (floorEntities (snd (setFloorsVisible fg buildingId visible))) b
        = map_of (floorEntities fg) b)"
proof (cases "map_of (floorEntities fg) buildingId")
  case None
  then show ?thesis by (simp add: setFloorsVisible_def)
next
  case (Some es)
  show ?thesis
  proof (cases "es = []")
    case True
    with Some show ?thesis by (simp add: setFloorsVisible_def)
  next
    case False
    let ?es' = "map (set_entity_show (viewer fg) visible) es"
    have fg': "snd (setFloorsVisible fg buildingId visible)
        = fg\<lparr> floorEntities := AList.update buildingId ?es' (floorEntities fg) \<rparr>"
      using Some False by (simp add: setFloorsVisible_def)
    have again: "map (set_entity_show (viewer fg) visible) ?es' = ?es'"
      by (simp add: set_entity_show_idem)
    have twice: "setFloorsVisible (snd (setFloorsVisible fg buildingId visible)) buildingId visible
        = setFloorsVisible fg buildingId visible"
      using Some False unfolding fg'
      by (simp add: setFloorsVisible_def update_conv' again del: map_map)
    have key: "buildingId \<in> set (map fst (floorEntities fg))"
      using Some by (metis domI dom_map_of_conv_image_fst set_map)
    have keys: "map fst (floorEntities (snd (setFloorsVisible fg buildingId visible)))
        = map fst (floorEntities fg)"
      unfolding fg' using key by (simp add: update_keys)
    have same: "map_option (map forget_show)
          (map_of (floorEntities (snd (setFloorsVisible fg buildingId visible))) b)
        = map_option (map forget_show) (map_of (floorEntities fg) b)"
      unfolding fg' using Some by (simp add: update_conv' forget_set_entity_show)
    have v: "viewer (snd (setFloorsVisible fg buildingId visible)) = viewer fg"
      unfolding fg' by simp
    have ok: "fst (setFloorsVisible fg buildingId visible)"
      using Some False by (simp add: setFloorsVisible_def)
    have stored: "map_of (floorEntities (snd (setFloorsVisible fg buildingId visible))) buildingId
        = Some ?es'"
      unfolding fg' by (simp add: update_conv')
    have flags: "(e_id (es ! i) \<in> viewer fg \<longrightarrow>
               e_show (?es' ! i) = visible \<and>
               e_children (?es' ! i) = map (\<lambda>child. visible) (e_children (es ! i))) \<and>
            (e_id (es ! i) \<notin> viewer fg \<longrightarrow> ?es' ! i = es ! i)"
      if "i < length es" for i
      using that by (simp add: set_entity_show_held set_entity_show_not_held)
    have others: "map_of (floorEntities (snd (setFloorsVisible fg buildingId visible))) b
        = map_of (floorEntities fg) b" if "b \<noteq> buildingId"
      unfolding fg' using that by (simp add: update_conv')
    have shown: "\<forall>es0. map_of (floorEntities fg) buildingId = Some es0 \<and> es0 \<noteq> [] \<longrightarrow>
      fst (setFloorsVisible fg buildingId visible) \<and>
      (\<exists>es'. map_of (floorEntities (snd (setFloorsVisible fg buildingId visible))) buildingId = Some es' \<and>
         length es' = length es0 \<and>
         (\<forall>i < length es0.
            (e_id (es0 ! i) \<in> viewer fg \<longrightarrow>
               e_show (es' ! i) = visible \<and>
               e_children (es' ! i) = map (\<lambda>child. visible) (e_children (es0 ! i))) \<and>
            (e_id (es0 ! i) \<notin> viewer fg \<longrightarrow> es' ! i = es0 ! i)))"
    proof (intro allI impI)
      fix es0
      assume "map_of (floorEntities fg) buildingId = Some es0 \<and> es0 \<noteq> []"
      with Some have e: "es0 = es" by simp
      have "length ?es' = length es" by simp
      with ok stored flags show "fst (setFloorsVisible fg buildingId visible) \<and>
      (\<exists>es'. map_of (floorEntities (snd (setFloorsVisible fg buildingId visible))) buildingId = Some es' \<and>
         length es' = length es0 \<and>
         (\<forall>i < length es0.
            (e_id (es0 ! i) \<in> viewer fg \<longrightarrow>
               e_show (es' ! i) = visible \<and>
               e_children (es' ! i) = map (\<lambda>child. visible) (e_children (es0 ! i))) \<and>
            (e_id (es0 ! i) \<notin> viewer fg \<longrightarrow> es' ! i = es0 ! i)))"
        unfolding e by blast
    qed
    from twice keys same v shown others show ?thesis by blast
  qed
qed



theorem setFloorsVisible_witness:
  "fst (setFloorsVisible
          (snd (generateFloorModels new_floor_generator (Some demo_feature) demo_records))
          ''0599100000668111'' False) \<and>
   e_show (the (map_of (floorEntities
                  (snd (generateFloorModels new_floor_generator (Some demo_feature) demo_records)))
                ''0599100000668111'') ! 0) \<and>
   \<not> e_show (the (map_of (floorEntities (snd (setFloorsVisible
          (snd (generateFloorModels new_floor_generator (Some demo_feature) demo_records))
          ''0599100000668111'' False))) ''0599100000668111'') ! 0)"
proof -
  let ?X = "''0599100000668111''"
  let ?g = "\<lparr> g_position = \<lparr> longitude = 1, latitude = 2, height = 20 \<rparr>, g_width = 32,
              g_length = 32, g_height = 30, g_isLShaped = False \<rparr>"
  let ?es = "map (floor_entity ?X ?g 3 demo_records) [0 .. 3 - 1]"
  let ?fg = "snd (generateFloorModels new_floor_generator (Some demo_feature) demo_records)"
  have gen: "generateFloorModels new_floor_generator (Some demo_feature) demo_records =
      (True, new_floor_generator\<lparr> viewer := insert (BuildingOutline ?X)
                              (insert (DebugMarker (''Building '' @ ?X)) (viewer new_floor_generator)
                                 \<union> FloorEntity ?X ` {0 .. 3 - 1}),
                     floorEntities := AList.update ?X ?es (floorEntities new_floor_generator),
                     activeBuilding := Some ?X \<rparr>)"
    using generateFloorModels_fresh [of "Some demo_feature" ?X new_floor_generator ?g demo_records
        "\<lparr> totalFloors = 3, floorUnits = [1, 0, 0] \<rparr>"]
    by (simp add: demo_id demo_geo demo_info getBuildingPosition_def new_floor_generator_def
        del: append_Cons append_Nil)
  have stored: "map_of (floorEntities ?fg) ?X = Some ?es"
    unfolding gen by (simp add: new_floor_generator_def)
  have ne: "?es \<noteq> []" by (simp add: upto_rec1)
  have len: "0 < length ?es" by simp
  have first: "?es ! 0 = floor_entity ?X ?g 3 demo_records 0"
    by (simp add: upto_rec1)
  have held: "e_id (?es ! 0) \<in> viewer ?fg"
    unfolding first gen by (simp add: e_id_floor_entity)
  from setFloorsVisible_idempotent [of ?fg ?X False ?X] stored ne
  obtain es' where ok: "fst (setFloorsVisible ?fg ?X False)"
    and st: "map_of (floorEntities (snd (setFloorsVisible ?fg ?X False))) ?X = Some es'"
    and fl: "\<forall>i < length ?es.
            (e_id (?es ! i) \<in> viewer ?fg \<longrightarrow>
               e_show (es' ! i) = False \<and>
               e_children (es' ! i) = map (\<lambda>child. False) (e_children (?es ! i))) \<and>
            (e_id (?es ! i) \<notin> viewer ?fg \<longrightarrow> es' ! i = ?es ! i)"
    by blast
  from fl len held have hidden: "\<not> e_show (es' ! 0)" by blast
  have before: "e_show (?es ! 0)"
    unfolding first by (rule e_show_floor_entity)
  from ok before hidden show ?thesis
    unfolding st stored by simp
qed

end
